theory Spec2Isabelle
  imports Main "HOL-Library.Word"
begin

section \<open>JavaScript values and effects\<close>

text \<open>
  The library is generic in the error type \<open>E\<close> and the success type \<open>A\<close>; the model
  keeps them as type variables \<open>'e\<close> and \<open>'a\<close> wherever the code is parametric. Three
  places treat a payload as a dynamic JavaScript value: the template literal of
  \<open>unwrap\<close> (string conversion), \<open>throw data.error\<close> in \<open>toPromise\<close>, and the test
  \<open>value == null\<close> of \<open>fromNullableWithError\<close>. There the payload has type \<open>jsval\<close>,
  which is also the type \<open>unknown\<close> of every thrown value and rejection reason.

  \<open>jsval\<close> holds the primitive values, \<open>Error\<close> objects (name and message) and
  other objects. The library does two things with a value of unknown type: it compares it
  with \<open>null\<close> and it converts it to a string.
  \<^item> \<open>JNum w\<close> is the number whose value is the integer \<open>sint w\<close>, from \<open>-2^53\<close> to
    \<open>2^53 - 1\<close>: a double holds each of them exactly, and \<open>Number::toString\<close> prints
    each of them in plain decimal digits (that notation ends at \<open>10^21\<close>).
  \<^item> \<open>JNaN\<close> is \<open>NaN\<close>. Any other number (a fraction, an infinity, \<open>-0\<close>, an integer
    outside the range of \<open>JNum\<close>) is \<open>JOtherNum str\<close>, given by the string \<open>str\<close> that
    \<open>Number::toString\<close> prints for it.
  \<^item> \<open>JBigInt i\<close> is the BigInt \<open>i\<close>, which prints all its decimal digits.
  \<^item> An object other than an \<open>Error\<close> is given by what its conversion to a string does:
    the string that its \<open>toString\<close> delivers, or the value that the conversion throws.
\<close>

datatype jsval =
    JUndefined
  | JNull
  | JBool bool
  | JNum "54 word"
  | JNaN
  | JOtherNum string
  | JBigInt int
  | JStr string
  | JSymbol string
  | JError string string
  | JObject "jsval + string"

text \<open>\<open>new Error(message)\<close> and the \<open>TypeError\<close> of a failed string conversion.\<close>

definition new_Error :: "string \<Rightarrow> jsval" where
  "new_Error message = JError ''Error'' message"

definition new_TypeError :: "string \<Rightarrow> jsval" where
  "new_TypeError message = JError ''TypeError'' message"

text \<open>Decimal digits of an integer.\<close>

function show_nat :: "nat \<Rightarrow> string" where
  "show_nat n =
     (if n < 10 then [''0123456789'' ! n]
      else show_nat (n div 10) @ [''0123456789'' ! (n mod 10)])"
  by pat_completeness auto
termination
  by (relation "measure (\<lambda>n. n)") auto

definition show_int :: "int \<Rightarrow> string" where
  "show_int i = (if i < 0 then ''-'' @ show_nat (nat (- i)) else show_nat (nat i))"

text \<open>
  The abstract operation \<open>ToString\<close>, which a template literal \<open>`${v}`\<close> applies to \<open>v\<close>.
  It throws a \<open>TypeError\<close> on a Symbol (the message is the engine's own; V8's is used);
  \<open>Inl\<close> is the thrown value. An \<open>Error\<close> object prints through
  \<open>Error.prototype.toString\<close>.
\<close>

fun ToString :: "jsval \<Rightarrow> jsval + string" where
  "ToString JUndefined = Inr ''undefined''"
| "ToString JNull = Inr ''null''"
| "ToString (JBool b) = Inr (if b then ''true'' else ''false'')"
| "ToString (JNum w) = Inr (show_int (sint w))"
| "ToString JNaN = Inr ''NaN''"
| "ToString (JOtherNum str) = Inr str"
| "ToString (JBigInt i) = Inr (show_int i)"
| "ToString (JStr s) = Inr s"
| "ToString (JSymbol d) = Inl (new_TypeError ''Cannot convert a Symbol value to a string'')"
| "ToString (JError name message) =
     Inr (if name = [] then message
          else if message = [] then name
          else name @ '': '' @ message)"
| "ToString (JObject conversion) = conversion"

text \<open>\<open>v == null\<close>: loose equality with \<open>null\<close> holds of \<open>null\<close> and \<open>undefined\<close> only.\<close>

definition loose_eq_null :: "jsval \<Rightarrow> bool" where
  "loose_eq_null v = (v = JNull \<or> v = JUndefined)"

text \<open>
  A call of caller-supplied code runs in a world state \<open>'s\<close> (everything its side effects
  can touch), either returns a value (\<open>Inr\<close>) or throws one (\<open>Inl\<close>), and leaves a world
  state. That a function is not invoked is then observable: the world is unchanged whatever
  the function is.
\<close>

type_synonym ('s, 'r) js = "'s \<Rightarrow> (jsval + 'r) \<times> 's"

definition return_js :: "'r \<Rightarrow> ('s, 'r) js" where
  "return_js v = (\<lambda>s. (Inr v, s))"

definition throw_js :: "jsval \<Rightarrow> ('s, 'r) js" where
  "throw_js x = (\<lambda>s. (Inl x, s))"

text \<open>Sequencing \<open>const v = m; k(v)\<close>: a throw of \<open>m\<close> propagates.\<close>

definition bind_js :: "('s, 'r) js \<Rightarrow> ('r \<Rightarrow> ('s, 'q) js) \<Rightarrow> ('s, 'q) js" where
  "bind_js m k = (\<lambda>s. case m s of (Inl x, s') \<Rightarrow> (Inl x, s') | (Inr v, s') \<Rightarrow> k v s')"

text \<open>A step that has no effect on the world: it only returns or throws.\<close>

definition lift_js :: "jsval + 'r \<Rightarrow> ('s, 'r) js" where
  "lift_js r = (\<lambda>s. (r, s))"

text \<open>
  A promise, by the way it settles; a promise that never settles has no value here, and
  awaiting one never returns. \<open>Promise.resolve(v)\<close>, \<open>await v\<close> and \<open>return v\<close> in an
  \<open>async\<close> function adopt \<open>v\<close> when it is a promise and take a plain \<open>v\<close> as fulfilled.
  So wherever a value that the caller supplies reaches one of these, whatever its declared
  type, the model takes an \<open>'a Promise\<close>, with \<open>Fulfilled v\<close> for a plain \<open>v\<close>: the
  arguments of the asynchronous factories, the result of \<open>onError\<close> there, the results of
  the functions given to the asynchronous combinators, the default of the asynchronous
  \<open>unwrapOr\<close>, and the success value of a \<open>Result\<close> that \<open>toPromise\<close> hands to
  \<open>Promise.resolve\<close>. What an \<open>AsyncResult\<close> stores has been awaited before, so the
  payloads \<open>'a\<close> and \<open>'e\<close> of its tagged union are plain values.
\<close>

datatype 'a Promise = Fulfilled 'a | Rejected jsval

section \<open>Result (src/core/Result.ts)\<close>

datatype ('e, 'a) ResultData = Ok (val: 'a) | Err (error: 'e)

datatype ('e, 'a) Result = Result (data: "('e, 'a) ResultData")

definition Result_ok :: "'a \<Rightarrow> ('e, 'a) Result" where
  "Result_ok v = Result (Ok v)"

definition Result_err :: "'e \<Rightarrow> ('e, 'a) Result" where
  "Result_err e = Result (Err e)"

definition Result_fromNullableWithError :: "'e \<Rightarrow> jsval \<Rightarrow> ('e, jsval) Result" where
  "Result_fromNullableWithError e v = (if loose_eq_null v then Result_err e else Result_ok v)"

text \<open>
  \<open>try { return Result.ok(f()) } catch (error) { return Result.err(onError(error)) }\<close>:
  a throw of \<open>f\<close> is caught; a throw of \<open>onError\<close>, raised inside the handler, is not.
\<close>

definition Result_tryCatch :: "('s, 'a) js \<Rightarrow> (jsval \<Rightarrow> ('s, 'e) js) \<Rightarrow> ('s, ('e, 'a) Result) js" where
  "Result_tryCatch f onError =
     (\<lambda>s. case f s of
             (Inr v, s') \<Rightarrow> (Inr (Result_ok v), s')
           | (Inl caught, s') \<Rightarrow> bind_js (onError caught) (\<lambda>e. return_js (Result_err e)) s')"

definition Result_rMap :: "('a \<Rightarrow> ('s, 'b) js) \<Rightarrow> ('e, 'a) Result \<Rightarrow> ('s, ('e, 'b) Result) js" where
  "Result_rMap f this =
     (case data this of
        Ok v \<Rightarrow> bind_js (f v) (\<lambda>b. return_js (Result_ok b))
      | Err e \<Rightarrow> return_js (Result_err e))"

definition Result_rMapErr :: "('e \<Rightarrow> ('s, 'f) js) \<Rightarrow> ('e, 'a) Result \<Rightarrow> ('s, ('f, 'a) Result) js" where
  "Result_rMapErr f this =
     (case data this of
        Err e \<Rightarrow> bind_js (f e) (\<lambda>e'. return_js (Result_err e'))
      | Ok v \<Rightarrow> return_js (Result_ok v))"

text \<open>
  The result type \<open>Result<E | F, B>\<close> of \<open>chain\<close> is an untagged union with no runtime
  effect; \<open>'e\<close> stands for the union.
\<close>

definition Result_chain :: "('a \<Rightarrow> ('s, ('e, 'b) Result) js) \<Rightarrow> ('e, 'a) Result \<Rightarrow> ('s, ('e, 'b) Result) js" where
  "Result_chain f this =
     (case data this of
        Ok v \<Rightarrow> f v
      | Err e \<Rightarrow> return_js (Result_err e))"

definition Result_match :: "('e \<Rightarrow> ('s, 'b) js) \<Rightarrow> ('a \<Rightarrow> ('s, 'b) js) \<Rightarrow> ('e, 'a) Result \<Rightarrow> ('s, 'b) js" where
  "Result_match onErr onOk this =
     (case data this of
        Ok v \<Rightarrow> onOk v
      | Err e \<Rightarrow> onErr e)"

definition unwrap_message :: "string" where
  "unwrap_message = ''Called unwrap on an Err value: ''"

definition unwrapErr_message :: "string" where
  "unwrapErr_message = ''Called unwrapErr on an Ok value''"

text \<open>
  \<open>throw new Error(`Called unwrap on an Err value: ${this.data.error}`)\<close>: the template
  literal converts the error first, and a throw of the conversion replaces the \<open>Error\<close>.
\<close>

definition Result_unwrap :: "(jsval, 'a) Result \<Rightarrow> jsval + 'a" where
  "Result_unwrap this =
     (case data this of
        Ok v \<Rightarrow> Inr v
      | Err e \<Rightarrow>
          (case ToString e of
             Inl x \<Rightarrow> Inl x
           | Inr str \<Rightarrow> Inl (new_Error (unwrap_message @ str))))"

definition Result_unwrapOr :: "'a \<Rightarrow> ('e, 'a) Result \<Rightarrow> 'a" where
  "Result_unwrapOr defaultValue this =
     (case data this of Ok v \<Rightarrow> v | Err e \<Rightarrow> defaultValue)"

definition Result_unwrapErr :: "('e, 'a) Result \<Rightarrow> jsval + 'e" where
  "Result_unwrapErr this =
     (case data this of
        Err e \<Rightarrow> Inr e
      | Ok v \<Rightarrow> Inl (new_Error unwrapErr_message))"

text \<open>
  \<open>Promise.resolve(this.data.value)\<close> adopts a success value that is a promise;
  \<open>Promise.reject(this.data.error)\<close> rejects with the error as it is.
\<close>

definition Result_toPromise :: "(jsval, 'a Promise) Result \<Rightarrow> 'a Promise" where
  "Result_toPromise this =
     (case data this of Ok v \<Rightarrow> v | Err e \<Rightarrow> Rejected e)"

definition Result_isOk :: "('e, 'a) Result \<Rightarrow> bool" where
  "Result_isOk this = (case data this of Ok v \<Rightarrow> True | Err e \<Rightarrow> False)"

definition Result_isErr :: "('e, 'a) Result \<Rightarrow> bool" where
  "Result_isErr this = (case data this of Err e \<Rightarrow> True | Ok v \<Rightarrow> False)"

section \<open>AsyncResult (src/core/AsyncResult.ts)\<close>

text \<open>
  An instance holds the promise given to the constructor and the private slot
  \<open>resolvedData\<close>, initially \<open>null\<close> (\<open>None\<close>). The field \<open>awaited\<close> is not in the source: it
  counts the executions of \<open>await this.promise\<close> in \<open>getResolvedData\<close>, the only place
  where the library touches the wrapped promise.
\<close>

record ('e, 'a) AsyncResult =
  promise :: "('e, 'a) ResultData Promise"
  resolvedData :: "('e, 'a) ResultData option"
  awaited :: nat

definition new_AsyncResult :: "('e, 'a) ResultData Promise \<Rightarrow> ('e, 'a) AsyncResult" where
  "new_AsyncResult p = \<lparr>promise = p, resolvedData = None, awaited = 0\<rparr>"

text \<open>
  The test \<open>!this.resolvedData\<close>: \<open>null\<close> is falsy, and a stored value is an object
  \<open>{ _tag, ... }\<close>, which is truthy whatever its fields hold.
\<close>

definition slot_truthy :: "('e, 'a) ResultData option \<Rightarrow> bool" where
  "slot_truthy slot = (case slot of None \<Rightarrow> False | Some d \<Rightarrow> True)"

text \<open>
  \<open>getResolvedData\<close> runs in two parts. Entered, it tests the slot and either goes on to
  \<open>return this.resolvedData\<close> (the slot passed the test, so it is not \<open>null\<close>) or
  suspends in \<open>await this.promise\<close>. Resumed with the value
  of the promise, it writes the slot and returns it; resumed with a rejection it throws,
  and the slot stays as it was. Other calls on the instance can run between the two parts.
\<close>

datatype ('e, 'a) activation = Awaiting | Returning "('e, 'a) ResultData"

definition getResolvedData_enter ::
  "('e, 'a) AsyncResult \<Rightarrow> ('e, 'a) activation \<times> ('e, 'a) AsyncResult" where
  "getResolvedData_enter this =
     (if \<not> slot_truthy (resolvedData this)
      then (Awaiting, this\<lparr>awaited := Suc (awaited this)\<rparr>)
      else (Returning (the (resolvedData this)), this))"

definition getResolvedData_resume ::
  "('e, 'a) AsyncResult \<Rightarrow> ('e, 'a) ResultData Promise \<times> ('e, 'a) AsyncResult" where
  "getResolvedData_resume this =
     (case promise this of
        Fulfilled d \<Rightarrow> (Fulfilled d, this\<lparr>resolvedData := Some d\<rparr>)
      | Rejected x \<Rightarrow> (Rejected x, this))"

text \<open>A call that is awaited before anything else touches the instance.\<close>

definition getResolvedData ::
  "('e, 'a) AsyncResult \<Rightarrow> ('e, 'a) ResultData Promise \<times> ('e, 'a) AsyncResult" where
  "getResolvedData this =
     (case getResolvedData_enter this of
        (Returning d, this') \<Rightarrow> (Fulfilled d, this')
      | (Awaiting, this') \<Rightarrow> getResolvedData_resume this')"

text \<open>
  Calls that overlap: a schedule is a list of events, \<open>Enter\<close> for a call that runs up to
  its \<open>await\<close>, \<open>Resume\<close> for a suspended call that continues. Every interleaving of calls
  on one instance is such a list.
\<close>

datatype event = Enter | Resume

fun step :: "event \<Rightarrow> ('e, 'a) AsyncResult \<Rightarrow> ('e, 'a) AsyncResult" where
  "step Enter this = snd (getResolvedData_enter this)"
| "step Resume this = snd (getResolvedData_resume this)"

fun run_events :: "event list \<Rightarrow> ('e, 'a) AsyncResult \<Rightarrow> ('e, 'a) AsyncResult" where
  "run_events [] this = this"
| "run_events (ev # evs) this = run_events evs (step ev this)"

subsection \<open>Factories\<close>

text \<open>
  Each factory is an \<open>async\<close> function: what it throws rejects the promise it returns.
  \<open>await Promise.resolve(value)\<close> throws when \<open>value\<close> is a rejected promise.
\<close>

definition AsyncResult_ok :: "'a Promise \<Rightarrow> ('e, 'a) AsyncResult Promise" where
  "AsyncResult_ok v =
     (case v of
        Rejected x \<Rightarrow> Rejected x
      | Fulfilled resolvedValue \<Rightarrow> Fulfilled (new_AsyncResult (Fulfilled (Ok resolvedValue))))"

definition AsyncResult_err :: "'e Promise \<Rightarrow> ('e, 'a) AsyncResult Promise" where
  "AsyncResult_err e =
     (case e of
        Rejected x \<Rightarrow> Rejected x
      | Fulfilled resolvedError \<Rightarrow> Fulfilled (new_AsyncResult (Fulfilled (Err resolvedError))))"

text \<open>
  \<open>fromNullableWithError\<close> awaits the value and hands the error to \<open>AsyncResult.err\<close> as
  it got it, which awaits it there.
\<close>

definition AsyncResult_fromNullableWithError ::
  "'e Promise \<Rightarrow> jsval Promise \<Rightarrow> ('e, jsval) AsyncResult Promise" where
  "AsyncResult_fromNullableWithError e v =
     (case v of
        Rejected x \<Rightarrow> Rejected x
      | Fulfilled resolvedValue \<Rightarrow>
          (if loose_eq_null resolvedValue then AsyncResult_err e
           else AsyncResult_ok (Fulfilled resolvedValue)))"

text \<open>
  \<open>f()\<close> can throw or return a promise that rejects; \<open>await f()\<close> inside \<open>try\<close> catches
  both. A throw of \<open>onError\<close> rejects the returned promise; what \<open>onError\<close> returns goes
  to \<open>AsyncResult.err\<close>, which awaits it.
\<close>

definition AsyncResult_tryCatch ::
  "('s, 'a Promise) js \<Rightarrow> (jsval \<Rightarrow> ('s, 'e Promise) js) \<Rightarrow> 's
     \<Rightarrow> ('e, 'a) AsyncResult Promise \<times> 's" where
  "AsyncResult_tryCatch f onError s =
     (case f s of
        (Inr (Fulfilled v), s') \<Rightarrow> (AsyncResult_ok (Fulfilled v), s')
      | (Inr (Rejected caught), s') \<Rightarrow>
          (case onError caught s' of
             (Inl x, s'') \<Rightarrow> (Rejected x, s'')
           | (Inr e, s'') \<Rightarrow> (AsyncResult_err e, s''))
      | (Inl caught, s') \<Rightarrow>
          (case onError caught s' of
             (Inl x, s'') \<Rightarrow> (Rejected x, s'')
           | (Inr e, s'') \<Rightarrow> (AsyncResult_err e, s'')))"

definition AsyncResult_fromPromise ::
  "'a Promise \<Rightarrow> (jsval \<Rightarrow> ('s, 'e Promise) js) \<Rightarrow> 's
     \<Rightarrow> ('e, 'a) AsyncResult Promise \<times> 's" where
  "AsyncResult_fromPromise p onError s =
     (case p of
        Fulfilled v \<Rightarrow> (AsyncResult_ok (Fulfilled v), s)
      | Rejected caught \<Rightarrow>
          (case onError caught s of
             (Inl x, s') \<Rightarrow> (Rejected x, s')
           | (Inr e, s') \<Rightarrow> (AsyncResult_err e, s')))"

subsection \<open>Instance methods\<close>

text \<open>
  A method call that is awaited at once yields the settled promise, the receiver as the
  call leaves it, and (where a caller-supplied function can run) the world. A function of
  type \<open>(a: A) => B | Promise<B>\<close> either throws or returns a \<open>'b Promise\<close>.
\<close>

definition AsyncResult_rMap ::
  "('a \<Rightarrow> ('s, 'b Promise) js) \<Rightarrow> ('e, 'a) AsyncResult \<Rightarrow> 's
     \<Rightarrow> ('e, 'b) AsyncResult Promise \<times> ('e, 'a) AsyncResult \<times> 's" where
  "AsyncResult_rMap f this s =
     (case getResolvedData this of
        (Rejected x, this') \<Rightarrow> (Rejected x, this', s)
      | (Fulfilled (Ok v), this') \<Rightarrow>
          (case f v s of
             (Inl x, s') \<Rightarrow> (Rejected x, this', s')
           | (Inr (Rejected x), s') \<Rightarrow> (Rejected x, this', s')
           | (Inr (Fulfilled b), s') \<Rightarrow> (AsyncResult_ok (Fulfilled b), this', s'))
      | (Fulfilled (Err e), this') \<Rightarrow> (AsyncResult_err (Fulfilled e), this', s))"

definition AsyncResult_rMapErr ::
  "('e \<Rightarrow> ('s, 'f Promise) js) \<Rightarrow> ('e, 'a) AsyncResult \<Rightarrow> 's
     \<Rightarrow> ('f, 'a) AsyncResult Promise \<times> ('e, 'a) AsyncResult \<times> 's" where
  "AsyncResult_rMapErr f this s =
     (case getResolvedData this of
        (Rejected x, this') \<Rightarrow> (Rejected x, this', s)
      | (Fulfilled (Err e), this') \<Rightarrow>
          (case f e s of
             (Inl x, s') \<Rightarrow> (Rejected x, this', s')
           | (Inr (Rejected x), s') \<Rightarrow> (Rejected x, this', s')
           | (Inr (Fulfilled e'), s') \<Rightarrow> (AsyncResult_err (Fulfilled e'), this', s'))
      | (Fulfilled (Ok v), this') \<Rightarrow> (AsyncResult_ok (Fulfilled v), this', s))"

text \<open>
  What \<open>await f(data.value)\<close> delivers in \<open>chain\<close>: an \<open>AsyncResult\<close> instance, or a
  plain value, which the test \<open>result instanceof AsyncResult\<close> tells apart.
\<close>

datatype ('e, 'b) chained = Instance "('e, 'b) AsyncResult" | Plain 'b

definition AsyncResult_chain ::
  "('a \<Rightarrow> ('s, ('e, 'b) chained Promise) js) \<Rightarrow> ('e, 'a) AsyncResult \<Rightarrow> 's
     \<Rightarrow> ('e, 'b) AsyncResult Promise \<times> ('e, 'a) AsyncResult \<times> 's" where
  "AsyncResult_chain f this s =
     (case getResolvedData this of
        (Rejected x, this') \<Rightarrow> (Rejected x, this', s)
      | (Fulfilled (Ok v), this') \<Rightarrow>
          (case f v s of
             (Inl x, s') \<Rightarrow> (Rejected x, this', s')
           | (Inr (Rejected x), s') \<Rightarrow> (Rejected x, this', s')
           | (Inr (Fulfilled (Instance result)), s') \<Rightarrow> (Fulfilled result, this', s')
           | (Inr (Fulfilled (Plain result)), s') \<Rightarrow> (AsyncResult_ok (Fulfilled result), this', s'))
      | (Fulfilled (Err e), this') \<Rightarrow> (AsyncResult_err (Fulfilled e), this', s))"

definition AsyncResult_match ::
  "('e \<Rightarrow> ('s, 'b Promise) js) \<Rightarrow> ('a \<Rightarrow> ('s, 'b Promise) js) \<Rightarrow> ('e, 'a) AsyncResult \<Rightarrow> 's
     \<Rightarrow> 'b Promise \<times> ('e, 'a) AsyncResult \<times> 's" where
  "AsyncResult_match onErr onOk this s =
     (case getResolvedData this of
        (Rejected x, this') \<Rightarrow> (Rejected x, this', s)
      | (Fulfilled (Ok v), this') \<Rightarrow>
          (case onOk v s of
             (Inl x, s') \<Rightarrow> (Rejected x, this', s')
           | (Inr p, s') \<Rightarrow> (p, this', s'))
      | (Fulfilled (Err e), this') \<Rightarrow>
          (case onErr e s of
             (Inl x, s') \<Rightarrow> (Rejected x, this', s')
           | (Inr p, s') \<Rightarrow> (p, this', s')))"

definition AsyncResult_unwrap ::
  "(jsval, 'a) AsyncResult \<Rightarrow> 'a Promise \<times> (jsval, 'a) AsyncResult" where
  "AsyncResult_unwrap this =
     (case getResolvedData this of
        (Rejected x, this') \<Rightarrow> (Rejected x, this')
      | (Fulfilled (Ok v), this') \<Rightarrow> (Fulfilled v, this')
      | (Fulfilled (Err e), this') \<Rightarrow>
          (case ToString e of
             Inl x \<Rightarrow> (Rejected x, this')
           | Inr str \<Rightarrow> (Rejected (new_Error (unwrap_message @ str)), this')))"

text \<open>\<open>return defaultValue\<close> adopts a default that is a promise.\<close>

definition AsyncResult_unwrapOr ::
  "'a Promise \<Rightarrow> ('e, 'a) AsyncResult \<Rightarrow> 'a Promise \<times> ('e, 'a) AsyncResult" where
  "AsyncResult_unwrapOr defaultValue this =
     (case getResolvedData this of
        (Rejected x, this') \<Rightarrow> (Rejected x, this')
      | (Fulfilled (Ok v), this') \<Rightarrow> (Fulfilled v, this')
      | (Fulfilled (Err e), this') \<Rightarrow> (defaultValue, this'))"

definition AsyncResult_unwrapErr ::
  "('e, 'a) AsyncResult \<Rightarrow> 'e Promise \<times> ('e, 'a) AsyncResult" where
  "AsyncResult_unwrapErr this =
     (case getResolvedData this of
        (Rejected x, this') \<Rightarrow> (Rejected x, this')
      | (Fulfilled (Err e), this') \<Rightarrow> (Fulfilled e, this')
      | (Fulfilled (Ok v), this') \<Rightarrow> (Rejected (new_Error unwrapErr_message), this'))"

definition AsyncResult_toPromise ::
  "(jsval, 'a) AsyncResult \<Rightarrow> 'a Promise \<times> (jsval, 'a) AsyncResult" where
  "AsyncResult_toPromise this =
     (case getResolvedData this of
        (Rejected x, this') \<Rightarrow> (Rejected x, this')
      | (Fulfilled (Ok v), this') \<Rightarrow> (Fulfilled v, this')
      | (Fulfilled (Err e), this') \<Rightarrow> (Rejected e, this'))"

definition AsyncResult_isOk ::
  "('e, 'a) AsyncResult \<Rightarrow> bool Promise \<times> ('e, 'a) AsyncResult" where
  "AsyncResult_isOk this =
     (case getResolvedData this of
        (Rejected x, this') \<Rightarrow> (Rejected x, this')
      | (Fulfilled (Ok v), this') \<Rightarrow> (Fulfilled True, this')
      | (Fulfilled (Err e), this') \<Rightarrow> (Fulfilled False, this'))"

definition AsyncResult_isErr ::
  "('e, 'a) AsyncResult \<Rightarrow> bool Promise \<times> ('e, 'a) AsyncResult" where
  "AsyncResult_isErr this =
     (case getResolvedData this of
        (Rejected x, this') \<Rightarrow> (Rejected x, this')
      | (Fulfilled (Err e), this') \<Rightarrow> (Fulfilled True, this')
      | (Fulfilled (Ok v), this') \<Rightarrow> (Fulfilled False, this'))"

subsection \<open>Calls made one after another\<close>

text \<open>
  The promise of an instance delivers \<open>d\<close>, and the slot is empty or holds \<open>d\<close>: the state
  of every instance the factories and the combinators create, before and after any call.
\<close>

definition resolves_to :: "('e, 'a) AsyncResult \<Rightarrow> ('e, 'a) ResultData \<Rightarrow> bool" where
  "resolves_to this d =
     (promise this = Fulfilled d \<and> (resolvedData this = None \<or> resolvedData this = Some d))"

text \<open>
  The combinators and accessors of an instance, as calls a client can make on it. The
  error type is \<open>jsval\<close> since \<open>unwrap\<close> and \<open>toPromise\<close> are among them.
\<close>

datatype ('a, 'b, 's) call =
    Call_rMap "'a \<Rightarrow> ('s, 'b Promise) js"
  | Call_rMapErr "jsval \<Rightarrow> ('s, 'b Promise) js"
  | Call_chain "'a \<Rightarrow> ('s, (jsval, 'b) chained Promise) js"
  | Call_match "jsval \<Rightarrow> ('s, 'b Promise) js" "'a \<Rightarrow> ('s, 'b Promise) js"
  | Call_unwrap
  | Call_unwrapOr "'a Promise"
  | Call_unwrapErr
  | Call_toPromise
  | Call_isOk
  | Call_isErr

text \<open>One call, awaited; its settled result is dropped, the receiver and the world go on.\<close>

fun perform ::
  "('a, 'b, 's) call \<Rightarrow> (jsval, 'a) AsyncResult \<times> 's \<Rightarrow> (jsval, 'a) AsyncResult \<times> 's" where
  "perform (Call_rMap f) (this, s) = snd (AsyncResult_rMap f this s)"
| "perform (Call_rMapErr f) (this, s) = snd (AsyncResult_rMapErr f this s)"
| "perform (Call_chain f) (this, s) = snd (AsyncResult_chain f this s)"
| "perform (Call_match onErr onOk) (this, s) = snd (AsyncResult_match onErr onOk this s)"
| "perform Call_unwrap (this, s) = (snd (AsyncResult_unwrap this), s)"
| "perform (Call_unwrapOr defaultValue) (this, s) = (snd (AsyncResult_unwrapOr defaultValue this), s)"
| "perform Call_unwrapErr (this, s) = (snd (AsyncResult_unwrapErr this), s)"
| "perform Call_toPromise (this, s) = (snd (AsyncResult_toPromise this), s)"
| "perform Call_isOk (this, s) = (snd (AsyncResult_isOk this), s)"
| "perform Call_isErr (this, s) = (snd (AsyncResult_isErr this), s)"

fun perform_all ::
  "('a, 'b, 's) call list \<Rightarrow> (jsval, 'a) AsyncResult \<times> 's \<Rightarrow> (jsval, 'a) AsyncResult \<times> 's" where
  "perform_all [] st = st"
| "perform_all (c # cs) st = perform_all cs (perform c st)"

text \<open>
  What the slot holds is what the promise delivered: the state of every instance from its
  construction on, whatever calls overlap on it.
\<close>

definition slot_consistent :: "('e, 'a) AsyncResult \<Rightarrow> bool" where
  "slot_consistent this =
     (case resolvedData this of None \<Rightarrow> True | Some d \<Rightarrow> promise this = Fulfilled d)"

section \<open>The numbers of \<open>JNum\<close>\<close>

text \<open>Every \<open>JNum\<close> is an integer that a double holds exactly and prints in decimal digits.\<close>

lemma JNum_range: "- (2 ^ 53) \<le> sint (w :: 54 word) \<and> sint w < 2 ^ 53"
  using sint_ge [of w] sint_lt [of w] by simp

section \<open>Laws of the effect combinators\<close>

lemma bind_js_return_left: "bind_js (return_js v) k = k v"
  by (simp add: bind_js_def return_js_def)

lemma bind_js_assoc: "bind_js (bind_js m k) h = bind_js m (\<lambda>v. bind_js (k v) h)"
  by (rule ext) (simp add: bind_js_def split: prod.splits sum.splits)

lemma bind_js_lift_Inr: "bind_js m (\<lambda>v. lift_js (Inr v)) = m"
  by (rule ext) (simp add: bind_js_def lift_js_def split: prod.splits sum.splits)

section \<open>Properties of Result\<close>

text \<open>
  Claim C3. \<open>chain\<close> is associative: for every outcome \<open>r\<close> and all functions \<open>f\<close> and \<open>g\<close>
  returning outcomes, \<open>r.chain(f).chain(g)\<close> and \<open>r.chain(x => f(x).chain(g))\<close> are the
  same computation: from every world they return the same outcome or throw the same
  value, and leave the same world.
\<close>

theorem Result_chain_associative:
  "bind_js (Result_chain f r) (Result_chain g)
     = Result_chain (\<lambda>x. bind_js (f x) (Result_chain g)) r"
proof (cases "data r")
  case (Ok v)
  then show ?thesis by (simp add: Result_chain_def)
next
  case (Err e)
  then show ?thesis
    by (simp add: Result_chain_def bind_js_return_left Result_err_def)
qed

text \<open>
  Claim C4. Functor law of \<open>rMap\<close>: \<open>ok(v).map(f).unwrap()\<close> is the call \<open>f(v)\<close> itself
  (its value, its throw and its effect), and \<open>err(e).map(f).unwrapErr()\<close> returns \<open>e\<close>
  in an unchanged world whatever \<open>f\<close> is, so \<open>f\<close> is not invoked on the failure path.
\<close>

theorem Result_rMap_functor_law:
  "bind_js (Result_rMap f (Result_ok v)) (\<lambda>r. lift_js (Result_unwrap r)) = f v
   \<and> bind_js (Result_rMap f (Result_err e)) (\<lambda>r. lift_js (Result_unwrapErr r)) = return_js e"
proof
  have "bind_js (Result_rMap f (Result_ok v)) (\<lambda>r. lift_js (Result_unwrap r))
          = bind_js (f v) (\<lambda>b. lift_js (Inr b))"
    by (simp add: Result_rMap_def Result_ok_def bind_js_assoc bind_js_return_left Result_unwrap_def)
  then show "bind_js (Result_rMap f (Result_ok v)) (\<lambda>r. lift_js (Result_unwrap r)) = f v"
    by (simp add: bind_js_lift_Inr)
next
  show "bind_js (Result_rMap f (Result_err e)) (\<lambda>r. lift_js (Result_unwrapErr r)) = return_js e"
    by (simp add: Result_rMap_def Result_err_def bind_js_def Result_unwrapErr_def
        lift_js_def return_js_def)
qed

text \<open>
  Claim C5. Short-circuit of \<open>chain\<close>: for every error \<open>e\<close>, every function \<open>f\<close> and every
  world \<open>s\<close>, \<open>err(e).chain(f)\<close> returns \<open>err(e)\<close>, a failure carrying the original error
  unchanged, and leaves \<open>s\<close> as it was: \<open>f\<close> is not invoked.
\<close>

theorem Result_chain_err_short_circuit:
  "Result_chain f (Result_err e) s = (Inr (Result_err e), s)"
  by (simp add: Result_chain_def Result_err_def return_js_def)

text \<open>
  Claim C6. \<open>fromNullableWithError(e, null)\<close> and \<open>fromNullableWithError(e, undefined)\<close>
  are \<open>Failure(e)\<close>; every value that is neither \<open>null\<close> nor \<open>undefined\<close> gives
  \<open>Success(value)\<close>, the falsy values \<open>0\<close>, the empty string, \<open>false\<close> and \<open>NaN\<close> among
  them.
\<close>

theorem Result_fromNullableWithError_spec:
  "Result_fromNullableWithError e JNull = Result_err e
   \<and> Result_fromNullableWithError e JUndefined = Result_err e
   \<and> (v \<noteq> JNull \<and> v \<noteq> JUndefined \<longrightarrow> Result_fromNullableWithError e v = Result_ok v)
   \<and> Result_fromNullableWithError e (JNum 0) = Result_ok (JNum 0)
   \<and> Result_fromNullableWithError e (JStr []) = Result_ok (JStr [])
   \<and> Result_fromNullableWithError e (JBool False) = Result_ok (JBool False)
   \<and> Result_fromNullableWithError e JNaN = Result_ok JNaN"
  by (simp add: Result_fromNullableWithError_def loose_eq_null_def)

theorem Result_fromNullableWithError_witness:
  "JNum 42 \<noteq> JNull \<and> JNum 42 \<noteq> JUndefined
   \<and> Result_fromNullableWithError ''missing'' (JNum 42) = Result_ok (JNum 42)"
  using Result_fromNullableWithError_spec [of "''missing''" "JNum 42"] by simp

text \<open>
  Claim C7. \<open>tryCatch(f, onError)\<close>: when \<open>f\<close> returns \<open>v\<close> the result is \<open>Success(v)\<close>
  in the world \<open>f\<close> left, whatever \<open>onError\<close> is (it is not invoked); when \<open>f\<close> throws
  \<open>c\<close> and \<open>onError(c)\<close> returns \<open>e\<close>, the result is \<open>Failure(e)\<close> in the world that the
  one call \<open>onError(c)\<close> left.
\<close>

theorem Result_tryCatch_spec:
  "(f s = (Inr v, s') \<longrightarrow> Result_tryCatch f onError s = (Inr (Result_ok v), s'))
   \<and> (f s = (Inl c, s') \<and> onError c s' = (Inr e, s'')
        \<longrightarrow> Result_tryCatch f onError s = (Inr (Result_err e), s''))"
  by (simp add: Result_tryCatch_def bind_js_def return_js_def)

text \<open>
  The world of the witness counts the calls of \<open>onError\<close>, which returns the message of
  the \<open>Error\<close> it is given: one call when \<open>f\<close> throws, none when \<open>f\<close> returns.
\<close>

theorem Result_tryCatch_witness:
  "throw_js (new_Error ''boom'') (0::nat) = (Inl (new_Error ''boom''), 0)
   \<and> (\<lambda>c n. (Inr (case c of JError name message \<Rightarrow> message | _ \<Rightarrow> []), Suc n))
         (new_Error ''boom'') (0::nat) = (Inr ''boom'', 1)
   \<and> Result_tryCatch (throw_js (new_Error ''boom'') :: (nat, int) js)
         (\<lambda>c n. (Inr (case c of JError name message \<Rightarrow> message | _ \<Rightarrow> []), Suc n)) 0
       = (Inr (Result_err ''boom''), 1)
   \<and> return_js (42::int) (0::nat) = (Inr 42, 0)
   \<and> Result_tryCatch (return_js (42::int))
         (\<lambda>c n. (Inr (case c of JError name message \<Rightarrow> message | _ \<Rightarrow> []), Suc n)) (0::nat)
       = (Inr (Result_ok 42), 0)"
  using
    Result_tryCatch_spec [of "throw_js (new_Error ''boom'')" "0::nat" _ "0::nat"
      "\<lambda>c n. (Inr (case c of JError name message \<Rightarrow> message | _ \<Rightarrow> []), Suc n)"
      "new_Error ''boom''" "''boom''" "1::nat"]
    Result_tryCatch_spec [of "return_js (42::int)" "0::nat" "42::int" "0::nat"
      "\<lambda>c n. (Inr (case c of JError name message \<Rightarrow> message | _ \<Rightarrow> []), Suc n)"]
  by (simp add: throw_js_def return_js_def new_Error_def)

section \<open>Properties of AsyncResult\<close>

subsection \<open>The memoized resolution\<close>

lemma slot_truthy_simps [simp]:
  "slot_truthy None = False"
  "slot_truthy (Some d) = True"
  by (simp_all add: slot_truthy_def)

lemma resolves_to_new: "resolves_to (new_AsyncResult (Fulfilled d)) d"
  by (simp add: resolves_to_def new_AsyncResult_def)

lemma getResolvedData_memo: "resolvedData this = Some d \<Longrightarrow> getResolvedData this = (Fulfilled d, this)"
  by (simp add: getResolvedData_def getResolvedData_enter_def)

lemma getResolvedData_first:
  "resolvedData this = None \<Longrightarrow> promise this = Fulfilled d \<Longrightarrow>
   getResolvedData this = (Fulfilled d, this\<lparr>awaited := Suc (awaited this), resolvedData := Some d\<rparr>)"
  by (simp add: getResolvedData_def getResolvedData_enter_def getResolvedData_resume_def)

lemma getResolvedData_resolves:
  "resolves_to this d \<Longrightarrow> getResolvedData this = (Fulfilled d, snd (getResolvedData this))"
  by (auto simp: resolves_to_def getResolvedData_memo getResolvedData_first)

lemma getResolvedData_keeps:
  "resolves_to this d \<Longrightarrow> resolves_to (snd (getResolvedData this)) d"
  by (auto simp: resolves_to_def getResolvedData_memo getResolvedData_first)

lemma getResolvedData_populates:
  "resolves_to this d \<Longrightarrow> resolvedData (snd (getResolvedData this)) = Some d"
  by (auto simp: resolves_to_def getResolvedData_memo getResolvedData_first)

lemma awaited_getResolvedData:
  "resolves_to this d \<Longrightarrow>
   awaited (snd (getResolvedData this))
     = (if resolvedData this = None then Suc (awaited this) else awaited this)"
  by (auto simp: resolves_to_def getResolvedData_memo getResolvedData_first)

lemma receiver_rMap: "fst (snd (AsyncResult_rMap f this s)) = snd (getResolvedData this)"
  by (simp add: AsyncResult_rMap_def split: prod.splits Promise.splits ResultData.splits sum.splits)

lemma receiver_rMapErr: "fst (snd (AsyncResult_rMapErr f this s)) = snd (getResolvedData this)"
  by (simp add: AsyncResult_rMapErr_def split: prod.splits Promise.splits ResultData.splits sum.splits)

lemma receiver_chain: "fst (snd (AsyncResult_chain f this s)) = snd (getResolvedData this)"
  by (simp add: AsyncResult_chain_def
      split: prod.splits Promise.splits ResultData.splits sum.splits chained.splits)

lemma receiver_match: "fst (snd (AsyncResult_match onErr onOk this s)) = snd (getResolvedData this)"
  by (simp add: AsyncResult_match_def split: prod.splits Promise.splits ResultData.splits sum.splits)

lemma receiver_unwrap: "snd (AsyncResult_unwrap this) = snd (getResolvedData this)"
  by (simp add: AsyncResult_unwrap_def split: prod.splits Promise.splits ResultData.splits sum.splits)

lemma receiver_unwrapOr: "snd (AsyncResult_unwrapOr dv this) = snd (getResolvedData this)"
  by (simp add: AsyncResult_unwrapOr_def split: prod.splits Promise.splits ResultData.splits)

lemma receiver_unwrapErr: "snd (AsyncResult_unwrapErr this) = snd (getResolvedData this)"
  by (simp add: AsyncResult_unwrapErr_def split: prod.splits Promise.splits ResultData.splits)

lemma receiver_toPromise: "snd (AsyncResult_toPromise this) = snd (getResolvedData this)"
  by (simp add: AsyncResult_toPromise_def split: prod.splits Promise.splits ResultData.splits)

lemma receiver_isOk: "snd (AsyncResult_isOk this) = snd (getResolvedData this)"
  by (simp add: AsyncResult_isOk_def split: prod.splits Promise.splits ResultData.splits)

lemma receiver_isErr: "snd (AsyncResult_isErr this) = snd (getResolvedData this)"
  by (simp add: AsyncResult_isErr_def split: prod.splits Promise.splits ResultData.splits)

lemma perform_receiver: "fst (perform c (this, s)) = snd (getResolvedData this)"
  by (cases c)
     (simp_all add: receiver_rMap receiver_rMapErr receiver_chain receiver_match receiver_unwrap
        receiver_unwrapOr receiver_unwrapErr receiver_toPromise receiver_isOk receiver_isErr)

lemma perform_all_resolves:
  "resolves_to (fst st) d \<Longrightarrow>
   resolves_to (fst (perform_all calls st)) d
   \<and> awaited (fst (perform_all calls st))
       = (if calls = [] \<or> resolvedData (fst st) \<noteq> None then awaited (fst st)
          else Suc (awaited (fst st)))
   \<and> (calls \<noteq> [] \<longrightarrow> resolvedData (fst (perform_all calls st)) = Some d)"
proof (induction calls arbitrary: st)
  case Nil
  then show ?case by simp
next
  case (Cons c cs)
  obtain this s where st: "st = (this, s)" by (cases st)
  let ?st1 = "perform c st"
  have r1: "fst ?st1 = snd (getResolvedData this)"
    by (simp add: st perform_receiver)
  from Cons.prems st have res: "resolves_to this d" by simp
  have res1: "resolves_to (fst ?st1) d"
    using res by (simp add: r1 getResolvedData_keeps)
  have slot1: "resolvedData (fst ?st1) = Some d"
    using res by (simp add: r1 getResolvedData_populates)
  have aw1: "awaited (fst ?st1) = (if resolvedData this = None then Suc (awaited this) else awaited this)"
    using res by (simp add: r1 awaited_getResolvedData)
  from Cons.IH [OF res1] slot1 aw1 show ?case
    by (cases cs) (simp_all add: st)
qed

lemma slot_consistent_new: "slot_consistent (new_AsyncResult p)"
  by (simp add: slot_consistent_def new_AsyncResult_def)

lemma step_promise: "promise (step ev this) = promise this"
  by (cases ev)
     (simp_all add: getResolvedData_enter_def getResolvedData_resume_def
        split: option.splits Promise.splits)

lemma step_consistent: "slot_consistent this \<Longrightarrow> slot_consistent (step ev this)"
  by (cases ev)
     (auto simp: slot_consistent_def getResolvedData_enter_def getResolvedData_resume_def
        split: option.splits Promise.splits)

lemma step_keeps:
  "slot_consistent this \<Longrightarrow> resolvedData this = Some d \<Longrightarrow> resolvedData (step ev this) = Some d"
  by (cases ev)
     (auto simp: slot_consistent_def getResolvedData_enter_def getResolvedData_resume_def
        split: option.splits Promise.splits)

lemma run_events_promise: "promise (run_events evs this) = promise this"
  by (induction evs arbitrary: this) (simp_all add: step_promise)

lemma run_events_consistent: "slot_consistent this \<Longrightarrow> slot_consistent (run_events evs this)"
  by (induction evs arbitrary: this) (simp_all add: step_consistent)

lemma run_events_keeps:
  "slot_consistent this \<Longrightarrow> resolvedData this = Some d \<Longrightarrow>
   resolvedData (run_events evs this) = Some d"
  by (induction evs arbitrary: this) (simp_all add: step_consistent step_keeps)

lemma getResolvedData_Fulfilled_slot:
  "slot_consistent this \<Longrightarrow> fst (getResolvedData this) = Fulfilled d \<Longrightarrow>
   resolvedData (snd (getResolvedData this)) = Some d \<and> slot_consistent (snd (getResolvedData this))"
  by (auto simp: slot_consistent_def getResolvedData_def getResolvedData_enter_def
        getResolvedData_resume_def split: option.splits Promise.splits)

lemma awaited_step: "awaited (step ev this) \<le> awaited this + (if ev = Enter then 1 else 0)"
  by (cases ev)
     (simp_all add: getResolvedData_enter_def getResolvedData_resume_def
        split: option.splits Promise.splits)

lemma awaited_run_events:
  "awaited (run_events evs this) \<le> awaited this + length (filter (\<lambda>ev. ev = Enter) evs)"
proof (induction evs arbitrary: this)
  case Nil
  then show ?case by simp
next
  case (Cons ev evs)
  have "awaited (run_events evs (step ev this))
          \<le> awaited (step ev this) + length (filter (\<lambda>ev. ev = Enter) evs)"
    by (rule Cons.IH)
  with awaited_step [of ev this] show ?case by (simp split: if_splits)
qed

text \<open>A call awaited at once is the schedule \<open>Enter\<close>, then \<open>Resume\<close> if it suspended.\<close>

lemma getResolvedData_as_events:
  "snd (getResolvedData this)
     = (if slot_truthy (resolvedData this) then run_events [Enter] this
        else run_events [Enter, Resume] this)"
  by (simp add: getResolvedData_def getResolvedData_enter_def)

lemma resume_delivers:
  "promise this = Fulfilled d \<Longrightarrow> fst (getResolvedData_resume (run_events evs this)) = Fulfilled d"
  by (simp add: getResolvedData_resume_def run_events_promise)

lemma chain_Instance:
  "getResolvedData this = (Fulfilled (Ok v), t) \<Longrightarrow> f v s = (Inr (Fulfilled (Instance r)), s') \<Longrightarrow>
   AsyncResult_chain f this s = (Fulfilled r, t, s')"
  by (simp add: AsyncResult_chain_def)

lemma chain_Plain:
  "getResolvedData this = (Fulfilled (Ok v), t) \<Longrightarrow> f v s = (Inr (Fulfilled (Plain b)), s') \<Longrightarrow>
   AsyncResult_chain f this s = (Fulfilled (new_AsyncResult (Fulfilled (Ok b))), t, s')"
  by (simp add: AsyncResult_chain_def AsyncResult_ok_def)

lemma chain_Err:
  "getResolvedData this = (Fulfilled (Err e), t) \<Longrightarrow>
   AsyncResult_chain f this s = (Fulfilled (new_AsyncResult (Fulfilled (Err e))), t, s)"
  by (simp add: AsyncResult_chain_def AsyncResult_err_def)

subsection \<open>What each operation does once the receiver is resolved\<close>

lemma ok_Fulfilled: "AsyncResult_ok (Fulfilled v) = Fulfilled (new_AsyncResult (Fulfilled (Ok v)))"
  by (simp add: AsyncResult_ok_def)

lemma err_Fulfilled: "AsyncResult_err (Fulfilled e) = Fulfilled (new_AsyncResult (Fulfilled (Err e)))"
  by (simp add: AsyncResult_err_def)

lemma factory_ok_settles:
  "(AsyncResult_ok pv = Fulfilled r \<longrightarrow> (\<exists>v. pv = Fulfilled v \<and> r = new_AsyncResult (Fulfilled (Ok v))))
   \<and> (AsyncResult_ok pv = Rejected x \<longrightarrow> pv = Rejected x)"
  by (cases pv) (auto simp: AsyncResult_ok_def)

lemma factory_err_settles:
  "(AsyncResult_err pe = Fulfilled r \<longrightarrow> (\<exists>e. pe = Fulfilled e \<and> r = new_AsyncResult (Fulfilled (Err e))))
   \<and> (AsyncResult_err pe = Rejected x \<longrightarrow> pe = Rejected x)"
  by (cases pe) (auto simp: AsyncResult_err_def)

lemma factory_fromNullable_settles:
  "(AsyncResult_fromNullableWithError pe pj = Fulfilled r \<longrightarrow> (\<exists>d. r = new_AsyncResult (Fulfilled d)))
   \<and> (AsyncResult_fromNullableWithError pe pj = Rejected x \<longrightarrow>
        pj = Rejected x \<or> (\<exists>v. pj = Fulfilled v \<and> loose_eq_null v \<and> pe = Rejected x))"
  by (cases pj; cases pe)
     (auto simp: AsyncResult_fromNullableWithError_def AsyncResult_err_def ok_Fulfilled)

lemma factory_tryCatch_settles:
  "(fst (AsyncResult_tryCatch f onError s) = Fulfilled r \<longrightarrow> (\<exists>d. r = new_AsyncResult (Fulfilled d)))
   \<and> (fst (AsyncResult_tryCatch f onError s) = Rejected x \<longrightarrow>
        (\<exists>c s'. (f s = (Inl c, s') \<or> f s = (Inr (Rejected c), s'))
           \<and> (fst (onError c s') = Inl x \<or> fst (onError c s') = Inr (Rejected x))))"
  by (auto simp: AsyncResult_tryCatch_def AsyncResult_err_def ok_Fulfilled
      split: prod.splits sum.splits Promise.splits)

lemma factory_fromPromise_settles:
  "(fst (AsyncResult_fromPromise p onError s) = Fulfilled r \<longrightarrow> (\<exists>d. r = new_AsyncResult (Fulfilled d)))
   \<and> (fst (AsyncResult_fromPromise p onError s) = Rejected x \<longrightarrow>
        (\<exists>c. p = Rejected c
           \<and> (fst (onError c s) = Inl x \<or> fst (onError c s) = Inr (Rejected x))))"
  by (auto simp: AsyncResult_fromPromise_def AsyncResult_err_def ok_Fulfilled
      split: prod.splits sum.splits Promise.splits)

lemma rMap_on:
  "getResolvedData this = (Fulfilled d, t) \<Longrightarrow>
   fst (AsyncResult_rMap f this s)
     = (case d of
          Ok v \<Rightarrow> (case fst (f v s) of
                      Inl x \<Rightarrow> Rejected x
                    | Inr (Rejected x) \<Rightarrow> Rejected x
                    | Inr (Fulfilled b) \<Rightarrow> Fulfilled (new_AsyncResult (Fulfilled (Ok b))))
        | Err e \<Rightarrow> Fulfilled (new_AsyncResult (Fulfilled (Err e))))"
  by (simp add: AsyncResult_rMap_def ok_Fulfilled err_Fulfilled
      split: prod.splits sum.splits Promise.splits ResultData.splits)

lemma rMapErr_on:
  "getResolvedData this = (Fulfilled d, t) \<Longrightarrow>
   fst (AsyncResult_rMapErr f this s)
     = (case d of
          Err e \<Rightarrow> (case fst (f e s) of
                      Inl x \<Rightarrow> Rejected x
                    | Inr (Rejected x) \<Rightarrow> Rejected x
                    | Inr (Fulfilled e') \<Rightarrow> Fulfilled (new_AsyncResult (Fulfilled (Err e'))))
        | Ok v \<Rightarrow> Fulfilled (new_AsyncResult (Fulfilled (Ok v))))"
  by (simp add: AsyncResult_rMapErr_def ok_Fulfilled err_Fulfilled
      split: prod.splits sum.splits Promise.splits ResultData.splits)

lemma chain_on:
  "getResolvedData this = (Fulfilled d, t) \<Longrightarrow>
   fst (AsyncResult_chain f this s)
     = (case d of
          Ok v \<Rightarrow> (case fst (f v s) of
                      Inl x \<Rightarrow> Rejected x
                    | Inr (Rejected x) \<Rightarrow> Rejected x
                    | Inr (Fulfilled (Instance r)) \<Rightarrow> Fulfilled r
                    | Inr (Fulfilled (Plain b)) \<Rightarrow> Fulfilled (new_AsyncResult (Fulfilled (Ok b))))
        | Err e \<Rightarrow> Fulfilled (new_AsyncResult (Fulfilled (Err e))))"
  by (simp add: AsyncResult_chain_def ok_Fulfilled err_Fulfilled
      split: prod.splits sum.splits Promise.splits ResultData.splits chained.splits)

lemma match_on:
  "getResolvedData this = (Fulfilled d, t) \<Longrightarrow>
   fst (AsyncResult_match onErr onOk this s)
     = (case d of
          Ok v \<Rightarrow> (case fst (onOk v s) of Inl x \<Rightarrow> Rejected x | Inr p \<Rightarrow> p)
        | Err e \<Rightarrow> (case fst (onErr e s) of Inl x \<Rightarrow> Rejected x | Inr p \<Rightarrow> p))"
  by (simp add: AsyncResult_match_def
      split: prod.splits sum.splits Promise.splits ResultData.splits)

lemma unwrap_on:
  "getResolvedData this = (Fulfilled d, t) \<Longrightarrow>
   fst (AsyncResult_unwrap this)
     = (case d of
          Ok v \<Rightarrow> Fulfilled v
        | Err e \<Rightarrow> (case ToString e of
                      Inl x \<Rightarrow> Rejected x
                    | Inr str \<Rightarrow> Rejected (new_Error (unwrap_message @ str))))"
  by (simp add: AsyncResult_unwrap_def split: sum.splits ResultData.splits)

lemma unwrapOr_on:
  "getResolvedData this = (Fulfilled d, t) \<Longrightarrow>
   fst (AsyncResult_unwrapOr dv this) = (case d of Ok v \<Rightarrow> Fulfilled v | Err e \<Rightarrow> dv)"
  by (simp add: AsyncResult_unwrapOr_def split: ResultData.splits)

lemma unwrapErr_on:
  "getResolvedData this = (Fulfilled d, t) \<Longrightarrow>
   fst (AsyncResult_unwrapErr this)
     = (case d of Err e \<Rightarrow> Fulfilled e | Ok v \<Rightarrow> Rejected (new_Error unwrapErr_message))"
  by (simp add: AsyncResult_unwrapErr_def split: ResultData.splits)

lemma toPromise_on:
  "getResolvedData this = (Fulfilled d, t) \<Longrightarrow>
   fst (AsyncResult_toPromise this) = (case d of Ok v \<Rightarrow> Fulfilled v | Err e \<Rightarrow> Rejected e)"
  by (simp add: AsyncResult_toPromise_def split: ResultData.splits)

lemma isOk_on:
  "getResolvedData this = (Fulfilled d, t) \<Longrightarrow>
   fst (AsyncResult_isOk this) = Fulfilled (case d of Ok v \<Rightarrow> True | Err e \<Rightarrow> False)"
  by (simp add: AsyncResult_isOk_def split: ResultData.splits)

lemma isErr_on:
  "getResolvedData this = (Fulfilled d, t) \<Longrightarrow>
   fst (AsyncResult_isErr this) = Fulfilled (case d of Err e \<Rightarrow> True | Ok v \<Rightarrow> False)"
  by (simp add: AsyncResult_isErr_def split: ResultData.splits)

subsection \<open>Where a raise comes from\<close>

lemma Result_unwrap_raises: "Result_unwrap r = Inl x \<Longrightarrow> \<exists>e. data r = Err e"
  by (simp add: Result_unwrap_def split: ResultData.splits)

lemma Result_unwrapErr_raises: "Result_unwrapErr r = Inl x \<Longrightarrow> \<exists>v. data r = Ok v"
  by (simp add: Result_unwrapErr_def split: ResultData.splits)

lemma Result_rMap_raises:
  "fst (Result_rMap f r s) = Inl x \<Longrightarrow> \<exists>v. data r = Ok v \<and> fst (f v s) = Inl x"
  by (auto simp: Result_rMap_def bind_js_def return_js_def
      split: ResultData.splits prod.splits sum.splits)

lemma Result_rMapErr_raises:
  "fst (Result_rMapErr f r s) = Inl x \<Longrightarrow> \<exists>e. data r = Err e \<and> fst (f e s) = Inl x"
  by (auto simp: Result_rMapErr_def bind_js_def return_js_def
      split: ResultData.splits prod.splits sum.splits)

lemma Result_chain_raises:
  "fst (Result_chain f r s) = Inl x \<Longrightarrow> \<exists>v. data r = Ok v \<and> fst (f v s) = Inl x"
  by (auto simp: Result_chain_def return_js_def split: ResultData.splits)

lemma Result_match_raises:
  "fst (Result_match onErr onOk r s) = Inl x \<Longrightarrow>
   (\<exists>v. data r = Ok v \<and> fst (onOk v s) = Inl x) \<or> (\<exists>e. data r = Err e \<and> fst (onErr e s) = Inl x)"
  by (auto simp: Result_match_def split: ResultData.splits)

lemma Result_tryCatch_raises:
  "fst (Result_tryCatch f onError s) = Inl x \<Longrightarrow>
   \<exists>c s'. f s = (Inl c, s') \<and> fst (onError c s') = Inl x"
  by (auto simp: Result_tryCatch_def bind_js_def return_js_def split: prod.splits sum.splits)

lemma AsyncResult_rMap_rejects:
  "getResolvedData this = (Fulfilled d, t) \<Longrightarrow> fst (AsyncResult_rMap f this s) = Rejected x \<Longrightarrow>
   \<exists>v. d = Ok v \<and> (fst (f v s) = Inl x \<or> fst (f v s) = Inr (Rejected x))"
  by (auto simp: rMap_on split: ResultData.splits sum.splits Promise.splits)

lemma AsyncResult_rMapErr_rejects:
  "getResolvedData this = (Fulfilled d, t) \<Longrightarrow> fst (AsyncResult_rMapErr f this s) = Rejected x \<Longrightarrow>
   \<exists>e. d = Err e \<and> (fst (f e s) = Inl x \<or> fst (f e s) = Inr (Rejected x))"
  by (auto simp: rMapErr_on split: ResultData.splits sum.splits Promise.splits)

lemma AsyncResult_chain_rejects:
  "getResolvedData this = (Fulfilled d, t) \<Longrightarrow> fst (AsyncResult_chain f this s) = Rejected x \<Longrightarrow>
   \<exists>v. d = Ok v \<and> (fst (f v s) = Inl x \<or> fst (f v s) = Inr (Rejected x))"
  by (auto simp: chain_on split: ResultData.splits sum.splits Promise.splits chained.splits)

lemma AsyncResult_match_rejects:
  "getResolvedData this = (Fulfilled d, t) \<Longrightarrow>
   fst (AsyncResult_match onErr onOk this s) = Rejected x \<Longrightarrow>
   (\<exists>v. d = Ok v \<and> (fst (onOk v s) = Inl x \<or> fst (onOk v s) = Inr (Rejected x)))
   \<or> (\<exists>e. d = Err e \<and> (fst (onErr e s) = Inl x \<or> fst (onErr e s) = Inr (Rejected x)))"
  by (auto simp: match_on split: ResultData.splits sum.splits)

subsection \<open>The memoization slot\<close>

text \<open>
  Claim C10. The emptiness test of the slot is a truthiness test, and it is sound. On an
  instance built by the constructor from any promise \<open>p\<close>, after any schedule of
  overlapping calls: the slot is empty or holds the tagged union (\<open>Ok\<close> or \<open>Err\<close>) that
  \<open>p\<close> delivered; it is truthy exactly when it is populated, and a call suspends exactly
  when it is empty; once it holds \<open>d\<close> it holds \<open>d\<close> after every further schedule, and
  a call then returns \<open>d\<close> and leaves the instance as it is; after a first call has
  returned \<open>d\<close>, every later call returns \<open>d\<close>.
\<close>

theorem memo_slot_sound:
  "(resolvedData (run_events evs (new_AsyncResult p)) = None
      \<or> (\<exists>d. p = Fulfilled d \<and> resolvedData (run_events evs (new_AsyncResult p)) = Some d
            \<and> ((\<exists>v. d = Ok v) \<or> (\<exists>e. d = Err e))))
   \<and> slot_truthy (resolvedData (run_events evs (new_AsyncResult p)))
       = (resolvedData (run_events evs (new_AsyncResult p)) \<noteq> None)
   \<and> (fst (getResolvedData_enter (run_events evs (new_AsyncResult p))) = Awaiting)
       = (resolvedData (run_events evs (new_AsyncResult p)) = None)
   \<and> (resolvedData (run_events evs (new_AsyncResult p)) = Some d
        \<longrightarrow> resolvedData (run_events evs' (run_events evs (new_AsyncResult p))) = Some d
          \<and> getResolvedData (run_events evs' (run_events evs (new_AsyncResult p)))
              = (Fulfilled d, run_events evs' (run_events evs (new_AsyncResult p))))
   \<and> (fst (getResolvedData (run_events evs (new_AsyncResult p))) = Fulfilled d
        \<longrightarrow> resolvedData (snd (getResolvedData (run_events evs (new_AsyncResult p)))) = Some d
          \<and> fst (getResolvedData
                   (run_events evs' (snd (getResolvedData (run_events evs (new_AsyncResult p))))))
              = Fulfilled d)"
proof -
  let ?t = "run_events evs (new_AsyncResult p)"
  have cons: "slot_consistent ?t"
    by (simp add: run_events_consistent slot_consistent_new)
  have prom: "promise ?t = p"
    by (simp add: run_events_promise new_AsyncResult_def)
  have stored: "resolvedData ?t = None
      \<or> (\<exists>d. p = Fulfilled d \<and> resolvedData ?t = Some d \<and> ((\<exists>v. d = Ok v) \<or> (\<exists>e. d = Err e)))"
  proof (cases "resolvedData ?t")
    case None
    then show ?thesis by simp
  next
    case (Some d)
    with cons prom have "p = Fulfilled d" by (simp add: slot_consistent_def)
    moreover have "(\<exists>v. d = Ok v) \<or> (\<exists>e. d = Err e)" by (cases d) simp_all
    ultimately show ?thesis using Some by simp
  qed
  have truthy: "slot_truthy (resolvedData ?t) = (resolvedData ?t \<noteq> None)"
    by (simp add: slot_truthy_def split: option.splits)
  have test: "(fst (getResolvedData_enter ?t) = Awaiting) = (resolvedData ?t = None)"
    by (cases "resolvedData ?t") (simp_all add: getResolvedData_enter_def)
  have oneway: "resolvedData ?t = Some d
        \<longrightarrow> resolvedData (run_events evs' ?t) = Some d
          \<and> getResolvedData (run_events evs' ?t) = (Fulfilled d, run_events evs' ?t)"
    using cons by (simp add: run_events_keeps getResolvedData_memo)
  have later: "fst (getResolvedData ?t) = Fulfilled d
        \<longrightarrow> resolvedData (snd (getResolvedData ?t)) = Some d
          \<and> fst (getResolvedData (run_events evs' (snd (getResolvedData ?t)))) = Fulfilled d"
  proof
    assume "fst (getResolvedData ?t) = Fulfilled d"
    with cons have a: "resolvedData (snd (getResolvedData ?t)) = Some d"
      and b: "slot_consistent (snd (getResolvedData ?t))"
      by (simp_all add: getResolvedData_Fulfilled_slot)
    from b a have "resolvedData (run_events evs' (snd (getResolvedData ?t))) = Some d"
      by (rule run_events_keeps)
    then show "resolvedData (snd (getResolvedData ?t)) = Some d
          \<and> fst (getResolvedData (run_events evs' (snd (getResolvedData ?t)))) = Fulfilled d"
      using a by (simp add: getResolvedData_memo)
  qed
  from stored truthy test oneway later show ?thesis by blast
qed

theorem memo_slot_sound_witness:
  "resolvedData (run_events [Enter, Enter, Resume] (new_AsyncResult (Fulfilled (Ok (7::nat)))
       :: (string, nat) AsyncResult)) = Some (Ok 7)
   \<and> resolvedData (run_events [Resume, Enter] (run_events [Enter, Enter, Resume]
        (new_AsyncResult (Fulfilled (Ok (7::nat))) :: (string, nat) AsyncResult))) = Some (Ok 7)
   \<and> fst (getResolvedData (run_events [Resume, Enter] (run_events [Enter, Enter, Resume]
        (new_AsyncResult (Fulfilled (Ok (7::nat))) :: (string, nat) AsyncResult)))) = Fulfilled (Ok 7)"
  using memo_slot_sound [of "[Enter, Enter, Resume]" "Fulfilled (Ok (7::nat)) :: (string, nat) ResultData Promise"
      "Ok 7" "[Resume, Enter]"]
  by (simp add: new_AsyncResult_def getResolvedData_enter_def getResolvedData_resume_def)

text \<open>
  Claim C2, as amended. On an instance whose promise delivers \<open>d\<close>, when the calls are
  made one after another, each awaited before the next, \<open>await this.promise\<close> runs once
  in all, in the first call, whatever the calls and their order; after the first call
  every access returns the stored \<open>d\<close> and changes nothing. When calls overlap, each call
  awaits the promise at most once, and each of them is resumed with the same \<open>d\<close>.
\<close>

theorem awaited_once_when_sequential:
  assumes "resolves_to this d"
  shows "awaited (fst (perform_all calls (this, s)))
           = (if calls = [] \<or> resolvedData this \<noteq> None then awaited this else Suc (awaited this))
       \<and> (calls \<noteq> [] \<longrightarrow>
            getResolvedData (fst (perform_all calls (this, s)))
              = (Fulfilled d, fst (perform_all calls (this, s))))
       \<and> fst (getResolvedData_resume (run_events evs this)) = Fulfilled d
       \<and> awaited (run_events evs this) \<le> awaited this + length (filter (\<lambda>ev. ev = Enter) evs)"
proof -
  from assms have res: "resolves_to (fst (this, s)) d" by simp
  note seq = perform_all_resolves [OF res, of calls]
  have a: "awaited (fst (perform_all calls (this, s)))
           = (if calls = [] \<or> resolvedData this \<noteq> None then awaited this else Suc (awaited this))"
    using seq by simp
  have b: "calls \<noteq> [] \<longrightarrow>
            getResolvedData (fst (perform_all calls (this, s)))
              = (Fulfilled d, fst (perform_all calls (this, s)))"
    using seq by (simp add: getResolvedData_memo)
  have c: "fst (getResolvedData_resume (run_events evs this)) = Fulfilled d"
    using assms by (simp add: resume_delivers resolves_to_def)
  from a b c awaited_run_events [of evs this] show ?thesis by simp
qed

theorem awaited_once_when_sequential_witness:
  "resolves_to (new_AsyncResult (Fulfilled (Ok (5::int))) :: (jsval, int) AsyncResult) (Ok 5)
   \<and> awaited (fst (perform_all
        [Call_isOk, Call_rMap (\<lambda>x. return_js (Fulfilled (x * 2))), Call_unwrap, Call_isErr
           :: (int, int, unit) call]
        (new_AsyncResult (Fulfilled (Ok 5)), ()))) = 1"
  using awaited_once_when_sequential [OF resolves_to_new,
      of "[Call_isOk, Call_rMap (\<lambda>x. return_js (Fulfilled (x * 2))), Call_unwrap, Call_isErr
           :: (int, int, unit) call]" "Ok (5::int)" "()" "[]"]
  by (simp add: resolves_to_def new_AsyncResult_def)

text \<open>
  Two calls that overlap, as in \<open>const p = r.isOk(); const q = r.isErr(); await p; await q\<close>:
  the second enters \<open>getResolvedData\<close> while the first is suspended, finds the slot
  empty and awaits the promise again.
\<close>

theorem overlap_counterexample:
  "awaited (run_events [Enter, Enter, Resume, Resume]
      (new_AsyncResult (Fulfilled (Ok (1::nat))) :: (jsval, nat) AsyncResult)) = 2"
  by (simp add: new_AsyncResult_def getResolvedData_enter_def getResolvedData_resume_def)

subsection \<open>chain\<close>

text \<open>
  Claim C8. Asynchronous \<open>chain\<close> on a receiver that resolves to \<open>d\<close>. On a success
  \<open>Ok v\<close> it calls \<open>f v\<close> and awaits the result: an \<open>AsyncResult\<close> instance is
  returned as it is, a plain value \<open>b\<close> is wrapped as a new successful instance. On a
  failure \<open>Err e\<close> it returns a new failed instance carrying \<open>e\<close>, in an unchanged
  world and for every \<open>f\<close>: \<open>f\<close> is not invoked.
\<close>

theorem AsyncResult_chain_spec:
  assumes "resolves_to this d"
  shows "(d = Ok v \<and> f v s = (Inr (Fulfilled (Instance r)), s')
            \<longrightarrow> AsyncResult_chain f this s = (Fulfilled r, snd (getResolvedData this), s'))
       \<and> (d = Ok v \<and> f v s = (Inr (Fulfilled (Plain b)), s')
            \<longrightarrow> AsyncResult_chain f this s
                  = (Fulfilled (new_AsyncResult (Fulfilled (Ok b))), snd (getResolvedData this), s'))
       \<and> (d = Err e
            \<longrightarrow> AsyncResult_chain f this s
                  = (Fulfilled (new_AsyncResult (Fulfilled (Err e))), snd (getResolvedData this), s))"
  using getResolvedData_resolves [OF assms]
  by (auto intro: chain_Instance chain_Plain chain_Err)

theorem AsyncResult_chain_witness:
  "resolves_to (new_AsyncResult (Fulfilled (Ok (5::int))) :: (string, int) AsyncResult) (Ok 5)
   \<and> fst (AsyncResult_chain
        (\<lambda>x n. (Inr (Fulfilled (Instance (new_AsyncResult (Fulfilled (Ok (x + 1)))))), Suc n))
        (new_AsyncResult (Fulfilled (Ok 5)) :: (string, int) AsyncResult) (0::nat))
       = Fulfilled (new_AsyncResult (Fulfilled (Ok 6)))
   \<and> snd (snd (AsyncResult_chain
        (\<lambda>x n. (Inr (Fulfilled (Instance (new_AsyncResult (Fulfilled (Ok (x + 1)))))), Suc n))
        (new_AsyncResult (Fulfilled (Ok 5)) :: (string, int) AsyncResult) (0::nat))) = 1
   \<and> fst (AsyncResult_chain
        (\<lambda>x n. (Inr (Fulfilled (Plain (x + 1))), Suc n))
        (new_AsyncResult (Fulfilled (Ok 5)) :: (string, int) AsyncResult) (0::nat))
       = Fulfilled (new_AsyncResult (Fulfilled (Ok 6)))
   \<and> resolves_to (new_AsyncResult (Fulfilled (Err ''e'')) :: (string, int) AsyncResult) (Err ''e'')
   \<and> fst (AsyncResult_chain
        (\<lambda>x n. (Inr (Fulfilled (Plain (x + 1))), Suc n))
        (new_AsyncResult (Fulfilled (Err ''e'')) :: (string, int) AsyncResult) (0::nat))
       = Fulfilled (new_AsyncResult (Fulfilled (Err ''e'')))
   \<and> snd (snd (AsyncResult_chain
        (\<lambda>x n. (Inr (Fulfilled (Plain (x + 1))), Suc n))
        (new_AsyncResult (Fulfilled (Err ''e'')) :: (string, int) AsyncResult) (0::nat))) = 0"
  using
    AsyncResult_chain_spec [OF resolves_to_new, of "Ok (5::int)" 5
      "\<lambda>x n. (Inr (Fulfilled (Instance (new_AsyncResult (Fulfilled (Ok (x + 1)))))), Suc n)"
      "0::nat" "new_AsyncResult (Fulfilled (Ok 6)) :: (string, int) AsyncResult" "1::nat"]
    AsyncResult_chain_spec [OF resolves_to_new, of "Ok (5::int)" 5
      "\<lambda>x n. (Inr (Fulfilled (Plain (x + 1)) :: (string, int) chained Promise), Suc n)"
      "0::nat" _ "1::nat" 6]
    AsyncResult_chain_spec [OF resolves_to_new, of "Err ''e'' :: (string, int) ResultData" _
      "\<lambda>x n. (Inr (Fulfilled (Plain (x + 1)) :: (string, int) chained Promise), Suc n)"
      "0::nat" _ _ _ "''e''"]
  by (simp add: resolves_to_new)

subsection \<open>Instances made by the factories\<close>

text \<open>
  Claim C9, as amended. An instance that a factory (\<open>ok\<close>, \<open>err\<close>,
  \<open>fromNullableWithError\<close>, \<open>tryCatch\<close>, \<open>fromPromise\<close>) delivers was constructed from a
  promise already fulfilled with a tagged union, and stays such an instance after every
  call. On such an instance \<open>isOk\<close> and \<open>isErr\<close> fulfil; \<open>unwrap\<close>, \<open>toPromise\<close> and
  \<open>unwrapOr\<close> fulfil on a success and \<open>unwrapErr\<close> on a failure; on a failure
  \<open>unwrapOr\<close> settles as the default it was given does, so it fulfils for every default
  that is a plain value or a promise that fulfils; \<open>rMap\<close>, \<open>rMapErr\<close>, \<open>chain\<close> and
  \<open>match\<close> fulfil when the function they call returns a value or a promise that fulfils,
  and whenever they call none.
\<close>

theorem factory_instances_fulfil:
  assumes "resolves_to this d"
  shows "(AsyncResult_ok pv = Fulfilled r1 \<longrightarrow> (\<exists>v. r1 = new_AsyncResult (Fulfilled (Ok v))))
    \<and> (AsyncResult_err pe = Fulfilled r2 \<longrightarrow> (\<exists>e. r2 = new_AsyncResult (Fulfilled (Err e))))
    \<and> (AsyncResult_fromNullableWithError e0 pj = Fulfilled r3 \<longrightarrow> (\<exists>d'. r3 = new_AsyncResult (Fulfilled d')))
    \<and> (fst (AsyncResult_tryCatch tf onError s) = Fulfilled r4 \<longrightarrow> (\<exists>d'. r4 = new_AsyncResult (Fulfilled d')))
    \<and> (fst (AsyncResult_fromPromise p onError' s) = Fulfilled r5 \<longrightarrow> (\<exists>d'. r5 = new_AsyncResult (Fulfilled d')))
    \<and> resolves_to (new_AsyncResult (Fulfilled d')) d'
    \<and> resolves_to (fst (perform c (this, s))) d
    \<and> fst (AsyncResult_isOk this) = Fulfilled (case d of Ok v \<Rightarrow> True | Err e \<Rightarrow> False)
    \<and> fst (AsyncResult_isErr this) = Fulfilled (case d of Err e \<Rightarrow> True | Ok v \<Rightarrow> False)
    \<and> (d = Ok v \<longrightarrow> fst (AsyncResult_unwrapOr dv this) = Fulfilled v)
    \<and> (d = Err e \<longrightarrow> fst (AsyncResult_unwrapOr dv this) = dv)
    \<and> (d = Ok v \<longrightarrow> fst (AsyncResult_unwrap this) = Fulfilled v)
    \<and> (d = Err e \<longrightarrow> fst (AsyncResult_unwrapErr this) = Fulfilled e)
    \<and> (d = Ok v \<longrightarrow> fst (AsyncResult_toPromise this) = Fulfilled v)
    \<and> (d = Ok v \<and> f v s = (Inr (Fulfilled b), s')
          \<longrightarrow> fst (AsyncResult_rMap f this s) = Fulfilled (new_AsyncResult (Fulfilled (Ok b))))
    \<and> (d = Err e \<longrightarrow> fst (AsyncResult_rMap f this s) = Fulfilled (new_AsyncResult (Fulfilled (Err e))))
    \<and> (d = Err e \<and> fe e s = (Inr (Fulfilled e'), s')
          \<longrightarrow> fst (AsyncResult_rMapErr fe this s) = Fulfilled (new_AsyncResult (Fulfilled (Err e'))))
    \<and> (d = Ok v \<longrightarrow> fst (AsyncResult_rMapErr fe this s) = Fulfilled (new_AsyncResult (Fulfilled (Ok v))))
    \<and> (d = Ok v \<and> g v s = (Inr (Fulfilled cr), s')
          \<longrightarrow> (\<exists>r. fst (AsyncResult_chain g this s) = Fulfilled r))
    \<and> (d = Err e \<longrightarrow> fst (AsyncResult_chain g this s) = Fulfilled (new_AsyncResult (Fulfilled (Err e))))
    \<and> (d = Ok v \<and> onOk v s = (Inr (Fulfilled m), s')
          \<longrightarrow> fst (AsyncResult_match onErr onOk this s) = Fulfilled m)
    \<and> (d = Err e \<and> onErr e s = (Inr (Fulfilled m), s')
          \<longrightarrow> fst (AsyncResult_match onErr onOk this s) = Fulfilled m)"
proof -
  note g = getResolvedData_resolves [OF assms]
  have f1: "AsyncResult_ok pv = Fulfilled r1 \<longrightarrow> (\<exists>v. r1 = new_AsyncResult (Fulfilled (Ok v)))"
    using factory_ok_settles [of pv r1] by blast
  have f2: "AsyncResult_err pe = Fulfilled r2 \<longrightarrow> (\<exists>e. r2 = new_AsyncResult (Fulfilled (Err e)))"
    using factory_err_settles [of pe r2] by blast
  have f3: "AsyncResult_fromNullableWithError e0 pj = Fulfilled r3 \<longrightarrow> (\<exists>d'. r3 = new_AsyncResult (Fulfilled d'))"
    using factory_fromNullable_settles [of e0 pj r3] by blast
  have f4: "fst (AsyncResult_tryCatch tf onError s) = Fulfilled r4 \<longrightarrow> (\<exists>d'. r4 = new_AsyncResult (Fulfilled d'))"
    using factory_tryCatch_settles [of tf onError s r4] by blast
  have f5: "fst (AsyncResult_fromPromise p onError' s) = Fulfilled r5 \<longrightarrow> (\<exists>d'. r5 = new_AsyncResult (Fulfilled d'))"
    using factory_fromPromise_settles [of p onError' s r5] by blast
  have f6: "resolves_to (new_AsyncResult (Fulfilled d')) d'"
    by (rule resolves_to_new)
  have f7: "resolves_to (fst (perform c (this, s))) d"
    using assms by (simp add: perform_receiver getResolvedData_keeps)
  have m1: "fst (AsyncResult_isOk this) = Fulfilled (case d of Ok v \<Rightarrow> True | Err e \<Rightarrow> False)"
    by (rule isOk_on [OF g])
  have m2: "fst (AsyncResult_isErr this) = Fulfilled (case d of Err e \<Rightarrow> True | Ok v \<Rightarrow> False)"
    by (rule isErr_on [OF g])
  have m3: "d = Ok v \<longrightarrow> fst (AsyncResult_unwrapOr dv this) = Fulfilled v"
    by (simp add: unwrapOr_on [OF g])
  have m3': "d = Err e \<longrightarrow> fst (AsyncResult_unwrapOr dv this) = dv"
    by (simp add: unwrapOr_on [OF g])
  have m4: "d = Ok v \<longrightarrow> fst (AsyncResult_unwrap this) = Fulfilled v"
    by (simp add: unwrap_on [OF g])
  have m5: "d = Err e \<longrightarrow> fst (AsyncResult_unwrapErr this) = Fulfilled e"
    by (simp add: unwrapErr_on [OF g])
  have m6: "d = Ok v \<longrightarrow> fst (AsyncResult_toPromise this) = Fulfilled v"
    by (simp add: toPromise_on [OF g])
  have m7: "d = Ok v \<and> f v s = (Inr (Fulfilled b), s')
          \<longrightarrow> fst (AsyncResult_rMap f this s) = Fulfilled (new_AsyncResult (Fulfilled (Ok b)))"
    by (simp add: rMap_on [OF g])
  have m8: "d = Err e \<longrightarrow> fst (AsyncResult_rMap f this s) = Fulfilled (new_AsyncResult (Fulfilled (Err e)))"
    by (simp add: rMap_on [OF g])
  have m9: "d = Err e \<and> fe e s = (Inr (Fulfilled e'), s')
          \<longrightarrow> fst (AsyncResult_rMapErr fe this s) = Fulfilled (new_AsyncResult (Fulfilled (Err e')))"
    by (simp add: rMapErr_on [OF g])
  have m10: "d = Ok v \<longrightarrow> fst (AsyncResult_rMapErr fe this s) = Fulfilled (new_AsyncResult (Fulfilled (Ok v)))"
    by (simp add: rMapErr_on [OF g])
  have m11: "d = Ok v \<and> g v s = (Inr (Fulfilled cr), s')
          \<longrightarrow> (\<exists>r. fst (AsyncResult_chain g this s) = Fulfilled r)"
    by (cases cr) (simp_all add: chain_on [OF g])
  have m12: "d = Err e \<longrightarrow> fst (AsyncResult_chain g this s) = Fulfilled (new_AsyncResult (Fulfilled (Err e)))"
    by (simp add: chain_on [OF g])
  have m13: "d = Ok v \<and> onOk v s = (Inr (Fulfilled m), s')
          \<longrightarrow> fst (AsyncResult_match onErr onOk this s) = Fulfilled m"
    by (simp add: match_on [OF g])
  have m14: "d = Err e \<and> onErr e s = (Inr (Fulfilled m), s')
          \<longrightarrow> fst (AsyncResult_match onErr onOk this s) = Fulfilled m"
    by (simp add: match_on [OF g])
  show ?thesis
    by (intro conjI)
       (fact f1, fact f2, fact f3, fact f4, fact f5, fact f6, fact f7,
        fact m1, fact m2, fact m3, fact m3', fact m4, fact m5, fact m6, fact m7, fact m8, fact m9,
        fact m10, fact m11, fact m12, fact m13, fact m14)
qed

theorem factory_instances_fulfil_witness:
  "AsyncResult_ok (Fulfilled (42::int))
      = Fulfilled (new_AsyncResult (Fulfilled (Ok 42)) :: (jsval, int) AsyncResult)
   \<and> resolves_to (new_AsyncResult (Fulfilled (Ok (42::int))) :: (jsval, int) AsyncResult) (Ok 42)
   \<and> fst (AsyncResult_rMap (\<lambda>x. return_js (Fulfilled (x * 2)))
          (new_AsyncResult (Fulfilled (Ok (42::int))) :: (jsval, int) AsyncResult) ())
       = Fulfilled (new_AsyncResult (Fulfilled (Ok (84::int))))
   \<and> fst (AsyncResult_unwrap (new_AsyncResult (Fulfilled (Ok (42::int))) :: (jsval, int) AsyncResult))
       = Fulfilled 42
   \<and> fst (AsyncResult_match (\<lambda>e. return_js (Fulfilled ''error'')) (\<lambda>v. return_js (Fulfilled ''value''))
          (new_AsyncResult (Fulfilled (Ok (42::int))) :: (jsval, int) AsyncResult) ())
       = Fulfilled ''value''
   \<and> resolves_to (new_AsyncResult (Fulfilled (Err (JStr ''e''))) :: (jsval, int) AsyncResult)
        (Err (JStr ''e''))
   \<and> fst (AsyncResult_unwrapOr (Fulfilled 0)
          (new_AsyncResult (Fulfilled (Err (JStr ''e''))) :: (jsval, int) AsyncResult))
       = Fulfilled 0
   \<and> fst (AsyncResult_unwrapErr
          (new_AsyncResult (Fulfilled (Err (JStr ''e''))) :: (jsval, int) AsyncResult))
       = Fulfilled (JStr ''e'')"
  using factory_instances_fulfil
    [where this = "new_AsyncResult (Fulfilled (Err (JStr ''e''))) :: (jsval, int) AsyncResult"
       and d = "Err (JStr ''e'')" and e = "JStr ''e''" and dv = "Fulfilled (0::int)",
     OF resolves_to_new]
    factory_instances_fulfil
    [where this = "new_AsyncResult (Fulfilled (Ok (42::int))) :: (jsval, int) AsyncResult"
       and d = "Ok 42" and v = 42 and s = "()" and s' = "()"
       and f = "\<lambda>x. return_js (Fulfilled (x * 2))" and b = "84::int"
       and onErr = "\<lambda>e. return_js (Fulfilled ''error'')"
       and onOk = "\<lambda>v. return_js (Fulfilled ''value'')" and m = "''value''"
       and pv = "Fulfilled (42::int)"
       and ?r1.0 = "new_AsyncResult (Fulfilled (Ok (42::int))) :: (jsval, int) AsyncResult",
     OF resolves_to_new]
  by (elim meta_allE conjE) (simp add: return_js_def resolves_to_new ok_Fulfilled)

text \<open>
  On a failure that the factory \<open>err\<close> made, \<open>unwrapOr\<close> with a default that is a rejected
  promise, as in \<open>(await AsyncResult.err('e')).unwrapOr(Promise.reject('x'))\<close>, rejects,
  and no caller-supplied function has run.
\<close>

theorem unwrapOr_rejects_counterexample:
  "AsyncResult_err (Fulfilled ''e'')
      = Fulfilled (new_AsyncResult (Fulfilled (Err ''e'')) :: (string, int) AsyncResult)
   \<and> fst (AsyncResult_unwrapOr (Rejected (JStr ''x''))
          (new_AsyncResult (Fulfilled (Err ''e'')) :: (string, int) AsyncResult))
       = Rejected (JStr ''x'')"
  by (simp add: AsyncResult_err_def AsyncResult_unwrapOr_def getResolvedData_def
      getResolvedData_enter_def getResolvedData_resume_def new_AsyncResult_def)

section \<open>What raises\<close>

text \<open>
  Claim C1, as amended. What the two unwraps raise is a plain \<open>Error\<close> object (the
  code has no error type of its own). For every error \<open>e\<close> whose string conversion gives
  \<open>str\<close>, \<open>unwrap\<close> on a failure carrying \<open>e\<close> raises (asynchronous: rejects with) an
  \<open>Error\<close> whose message is \<open>Called unwrap on an Err value: \<close> followed by \<open>str\<close>;
  \<open>unwrapErr\<close> on a success raises an \<open>Error\<close>; the asynchronous \<open>toPromise\<close> on a
  failure rejects with \<open>e\<close>, and the synchronous one returns a promise rejected with
  \<open>e\<close>. These are the only raises of the library's own:
  \<^item> \<open>unwrap\<close> raises on a failure only and \<open>unwrapErr\<close> on a success only;
  \<^item> a raise of \<open>rMap\<close>, \<open>rMapErr\<close>, \<open>chain\<close>, \<open>match\<close> or \<open>tryCatch\<close> is the raise of
    the caller-supplied function it called (for \<open>tryCatch\<close>, of \<open>onError\<close>);
  \<^item> on an instance whose promise is fulfilled, the asynchronous \<open>isOk\<close> and \<open>isErr\<close>
    never reject, \<open>toPromise\<close> rejects on a failure only, \<open>unwrapOr\<close> rejects only on a
    failure and only with the rejection of the default it was given, and a rejection of a
    combinator is the throw of the function it called or the rejection of the promise
    that function returned;
  \<^item> a factory rejects only with the rejection of a promise it was given (as value or as
    error), with the throw of \<open>onError\<close>, or with the rejection of the promise that
    \<open>onError\<close> returned.
\<close>

theorem unwrap_misuse_errors:
  assumes "resolves_to this d"
  shows "(ToString e = Inr str
            \<longrightarrow> Result_unwrap (Result_err e) = Inl (new_Error (unwrap_message @ str)))
    \<and> (d = Err e \<and> ToString e = Inr str
            \<longrightarrow> fst (AsyncResult_unwrap this) = Rejected (new_Error (unwrap_message @ str)))
    \<and> Result_unwrapErr (Result_ok v) = Inl (new_Error unwrapErr_message)
    \<and> (d = Ok v \<longrightarrow> fst (AsyncResult_unwrapErr this) = Rejected (new_Error unwrapErr_message))
    \<and> (d = Err e \<longrightarrow> fst (AsyncResult_toPromise this) = Rejected e)
    \<and> Result_toPromise (Result_err e) = Rejected e
    \<and> (Result_unwrap r = Inl x \<longrightarrow> (\<exists>e. data r = Err e))
    \<and> (Result_unwrapErr r = Inl x \<longrightarrow> (\<exists>v. data r = Ok v))
    \<and> (fst (Result_rMap f r s) = Inl x \<longrightarrow> (\<exists>v. data r = Ok v \<and> fst (f v s) = Inl x))
    \<and> (fst (Result_rMapErr fe r s) = Inl x \<longrightarrow> (\<exists>e. data r = Err e \<and> fst (fe e s) = Inl x))
    \<and> (fst (Result_chain g r s) = Inl x \<longrightarrow> (\<exists>v. data r = Ok v \<and> fst (g v s) = Inl x))
    \<and> (fst (Result_match onErr onOk r s) = Inl x
          \<longrightarrow> (\<exists>v. data r = Ok v \<and> fst (onOk v s) = Inl x)
              \<or> (\<exists>e. data r = Err e \<and> fst (onErr e s) = Inl x))
    \<and> (fst (Result_tryCatch tf onError s) = Inl x
          \<longrightarrow> (\<exists>c s'. tf s = (Inl c, s') \<and> fst (onError c s') = Inl x))
    \<and> (fst (AsyncResult_unwrap this) = Rejected x \<longrightarrow> (\<exists>e. d = Err e))
    \<and> (fst (AsyncResult_unwrapErr this) = Rejected x \<longrightarrow> (\<exists>v. d = Ok v))
    \<and> (fst (AsyncResult_toPromise this) = Rejected x \<longrightarrow> d = Err x)
    \<and> (fst (AsyncResult_unwrapOr dv this) = Rejected x \<longrightarrow> (\<exists>e. d = Err e) \<and> dv = Rejected x)
    \<and> (\<exists>a. fst (AsyncResult_isOk this) = Fulfilled a)
    \<and> (\<exists>a. fst (AsyncResult_isErr this) = Fulfilled a)
    \<and> (fst (AsyncResult_rMap af this s) = Rejected x
          \<longrightarrow> (\<exists>v. d = Ok v \<and> (fst (af v s) = Inl x \<or> fst (af v s) = Inr (Rejected x))))
    \<and> (fst (AsyncResult_rMapErr afe this s) = Rejected x
          \<longrightarrow> (\<exists>e. d = Err e \<and> (fst (afe e s) = Inl x \<or> fst (afe e s) = Inr (Rejected x))))
    \<and> (fst (AsyncResult_chain ag this s) = Rejected x
          \<longrightarrow> (\<exists>v. d = Ok v \<and> (fst (ag v s) = Inl x \<or> fst (ag v s) = Inr (Rejected x))))
    \<and> (fst (AsyncResult_match aonErr aonOk this s) = Rejected x
          \<longrightarrow> (\<exists>v. d = Ok v \<and> (fst (aonOk v s) = Inl x \<or> fst (aonOk v s) = Inr (Rejected x)))
              \<or> (\<exists>e. d = Err e \<and> (fst (aonErr e s) = Inl x \<or> fst (aonErr e s) = Inr (Rejected x))))
    \<and> (AsyncResult_ok pv = Rejected x \<longrightarrow> pv = Rejected x)
    \<and> (AsyncResult_err pe = Rejected x \<longrightarrow> pe = Rejected x)
    \<and> (AsyncResult_fromNullableWithError e0 pj = Rejected x
          \<longrightarrow> pj = Rejected x \<or> (\<exists>v. pj = Fulfilled v \<and> loose_eq_null v \<and> e0 = Rejected x))
    \<and> (fst (AsyncResult_tryCatch atf aonError s) = Rejected x
          \<longrightarrow> (\<exists>c s'. (atf s = (Inl c, s') \<or> atf s = (Inr (Rejected c), s'))
                  \<and> (fst (aonError c s') = Inl x \<or> fst (aonError c s') = Inr (Rejected x))))
    \<and> (fst (AsyncResult_fromPromise p ponError s) = Rejected x
          \<longrightarrow> (\<exists>c. p = Rejected c
                  \<and> (fst (ponError c s) = Inl x \<or> fst (ponError c s) = Inr (Rejected x))))"
proof -
  note g = getResolvedData_resolves [OF assms]
  have u1: "ToString e = Inr str
            \<longrightarrow> Result_unwrap (Result_err e) = Inl (new_Error (unwrap_message @ str))"
    by (simp add: Result_unwrap_def Result_err_def)
  have u2: "d = Err e \<and> ToString e = Inr str
            \<longrightarrow> fst (AsyncResult_unwrap this) = Rejected (new_Error (unwrap_message @ str))"
    by (simp add: unwrap_on [OF g])
  have u3: "Result_unwrapErr (Result_ok v) = Inl (new_Error unwrapErr_message)"
    by (simp add: Result_unwrapErr_def Result_ok_def)
  have u4: "d = Ok v \<longrightarrow> fst (AsyncResult_unwrapErr this) = Rejected (new_Error unwrapErr_message)"
    by (simp add: unwrapErr_on [OF g])
  have u5: "d = Err e \<longrightarrow> fst (AsyncResult_toPromise this) = Rejected e"
    by (simp add: toPromise_on [OF g])
  have u6: "Result_toPromise (Result_err e) = Rejected e"
    by (simp add: Result_toPromise_def Result_err_def)
  have s1: "Result_unwrap r = Inl x \<longrightarrow> (\<exists>e. data r = Err e)"
    using Result_unwrap_raises [of r x] by blast
  have s2: "Result_unwrapErr r = Inl x \<longrightarrow> (\<exists>v. data r = Ok v)"
    using Result_unwrapErr_raises [of r x] by blast
  have s3: "fst (Result_rMap f r s) = Inl x \<longrightarrow> (\<exists>v. data r = Ok v \<and> fst (f v s) = Inl x)"
    using Result_rMap_raises [of f r s x] by blast
  have s4: "fst (Result_rMapErr fe r s) = Inl x \<longrightarrow> (\<exists>e. data r = Err e \<and> fst (fe e s) = Inl x)"
    using Result_rMapErr_raises [of fe r s x] by blast
  have s5: "fst (Result_chain g r s) = Inl x \<longrightarrow> (\<exists>v. data r = Ok v \<and> fst (g v s) = Inl x)"
    using Result_chain_raises [of g r s x] by blast
  have s6: "fst (Result_match onErr onOk r s) = Inl x
          \<longrightarrow> (\<exists>v. data r = Ok v \<and> fst (onOk v s) = Inl x)
              \<or> (\<exists>e. data r = Err e \<and> fst (onErr e s) = Inl x)"
    using Result_match_raises [of onErr onOk r s x] by blast
  have s7: "fst (Result_tryCatch tf onError s) = Inl x
          \<longrightarrow> (\<exists>c s'. tf s = (Inl c, s') \<and> fst (onError c s') = Inl x)"
    using Result_tryCatch_raises [of tf onError s x] by blast
  have a1: "fst (AsyncResult_unwrap this) = Rejected x \<longrightarrow> (\<exists>e. d = Err e)"
    by (simp add: unwrap_on [OF g] split: ResultData.splits)
  have a2: "fst (AsyncResult_unwrapErr this) = Rejected x \<longrightarrow> (\<exists>v. d = Ok v)"
    by (simp add: unwrapErr_on [OF g] split: ResultData.splits)
  have a3: "fst (AsyncResult_toPromise this) = Rejected x \<longrightarrow> d = Err x"
    by (simp add: toPromise_on [OF g] split: ResultData.splits)
  have a4: "fst (AsyncResult_unwrapOr dv this) = Rejected x \<longrightarrow> (\<exists>e. d = Err e) \<and> dv = Rejected x"
    by (simp add: unwrapOr_on [OF g] split: ResultData.splits)
  have a5: "\<exists>a. fst (AsyncResult_isOk this) = Fulfilled a"
    by (simp add: isOk_on [OF g])
  have a6: "\<exists>a. fst (AsyncResult_isErr this) = Fulfilled a"
    by (simp add: isErr_on [OF g])
  have a7: "fst (AsyncResult_rMap af this s) = Rejected x
          \<longrightarrow> (\<exists>v. d = Ok v \<and> (fst (af v s) = Inl x \<or> fst (af v s) = Inr (Rejected x)))"
    using AsyncResult_rMap_rejects [OF g, of af s x] by blast
  have a8: "fst (AsyncResult_rMapErr afe this s) = Rejected x
          \<longrightarrow> (\<exists>e. d = Err e \<and> (fst (afe e s) = Inl x \<or> fst (afe e s) = Inr (Rejected x)))"
    using AsyncResult_rMapErr_rejects [OF g, of afe s x] by blast
  have a9: "fst (AsyncResult_chain ag this s) = Rejected x
          \<longrightarrow> (\<exists>v. d = Ok v \<and> (fst (ag v s) = Inl x \<or> fst (ag v s) = Inr (Rejected x)))"
    using AsyncResult_chain_rejects [OF g, of ag s x] by blast
  have a10: "fst (AsyncResult_match aonErr aonOk this s) = Rejected x
          \<longrightarrow> (\<exists>v. d = Ok v \<and> (fst (aonOk v s) = Inl x \<or> fst (aonOk v s) = Inr (Rejected x)))
              \<or> (\<exists>e. d = Err e \<and> (fst (aonErr e s) = Inl x \<or> fst (aonErr e s) = Inr (Rejected x)))"
    using AsyncResult_match_rejects [OF g, of aonErr aonOk s x] by blast
  have c1: "AsyncResult_ok pv = Rejected x \<longrightarrow> pv = Rejected x"
    using factory_ok_settles [of pv _ x] by blast
  have c2: "AsyncResult_err pe = Rejected x \<longrightarrow> pe = Rejected x"
    using factory_err_settles [of pe _ x] by blast
  have c3: "AsyncResult_fromNullableWithError e0 pj = Rejected x
          \<longrightarrow> pj = Rejected x \<or> (\<exists>v. pj = Fulfilled v \<and> loose_eq_null v \<and> e0 = Rejected x)"
    using factory_fromNullable_settles [of e0 pj _ x] by blast
  have c4: "fst (AsyncResult_tryCatch atf aonError s) = Rejected x
          \<longrightarrow> (\<exists>c s'. (atf s = (Inl c, s') \<or> atf s = (Inr (Rejected c), s'))
                  \<and> (fst (aonError c s') = Inl x \<or> fst (aonError c s') = Inr (Rejected x)))"
    using factory_tryCatch_settles [of atf aonError s _ x] by blast
  have c5: "fst (AsyncResult_fromPromise p ponError s) = Rejected x
          \<longrightarrow> (\<exists>c. p = Rejected c
                  \<and> (fst (ponError c s) = Inl x \<or> fst (ponError c s) = Inr (Rejected x)))"
    using factory_fromPromise_settles [of p ponError s _ x] by blast
  show ?thesis
    by (intro conjI)
       (fact u1, fact u2, fact u3, fact u4, fact u5, fact u6,
        fact s1, fact s2, fact s3, fact s4, fact s5, fact s6, fact s7,
        fact a1, fact a2, fact a3, fact a4, fact a5, fact a6, fact a7, fact a8, fact a9, fact a10,
        fact c1, fact c2, fact c3, fact c4, fact c5)
qed

theorem unwrap_misuse_errors_witness:
  "resolves_to (new_AsyncResult (Fulfilled (Err (JStr ''bad''))) :: (jsval, int) AsyncResult)
      (Err (JStr ''bad''))
   \<and> ToString (JStr ''bad'') = Inr ''bad''
   \<and> Result_unwrap (Result_err (JStr ''bad'') :: (jsval, int) Result)
       = Inl (JError ''Error'' ''Called unwrap on an Err value: bad'')
   \<and> fst (AsyncResult_unwrap (new_AsyncResult (Fulfilled (Err (JStr ''bad''))) :: (jsval, int) AsyncResult))
       = Rejected (JError ''Error'' ''Called unwrap on an Err value: bad'')
   \<and> fst (AsyncResult_toPromise (new_AsyncResult (Fulfilled (Err (JStr ''bad''))) :: (jsval, int) AsyncResult))
       = Rejected (JStr ''bad'')"
  using unwrap_misuse_errors
    [where this = "new_AsyncResult (Fulfilled (Err (JStr ''bad''))) :: (jsval, int) AsyncResult"
       and d = "Err (JStr ''bad'')" and e = "JStr ''bad''" and str = "''bad''",
     OF resolves_to_new]
  by (elim meta_allE conjE) (simp add: resolves_to_new new_Error_def unwrap_message_def)

text \<open>
  The asynchronous \<open>toPromise\<close> on a failure rejects with the error, which is a raise
  outside the two unwraps. On a Symbol the template literal of \<open>unwrap\<close> throws a
  \<open>TypeError\<close>, so that no error carrying the converted error is raised. And where the
  two unwraps raise their own error, it is an \<open>Error\<close> object whose name is \<open>Error\<close>.
\<close>

theorem unwrap_misuse_counterexample:
  "fst (AsyncResult_toPromise (new_AsyncResult (Fulfilled (Err (JStr ''e''))) :: (jsval, int) AsyncResult))
      = Rejected (JStr ''e'')
   \<and> Result_unwrap (Result_err (JSymbol ''id'') :: (jsval, int) Result)
      = Inl (JError ''TypeError'' ''Cannot convert a Symbol value to a string'')
   \<and> fst (AsyncResult_unwrap (new_AsyncResult (Fulfilled (Err (JSymbol ''id''))) :: (jsval, int) AsyncResult))
      = Rejected (JError ''TypeError'' ''Cannot convert a Symbol value to a string'')
   \<and> Result_unwrap (Result_err (JStr ''bad'') :: (jsval, int) Result)
      = Inl (JError ''Error'' ''Called unwrap on an Err value: bad'')
   \<and> Result_unwrapErr (Result_ok (1::int) :: (jsval, int) Result)
      = Inl (JError ''Error'' ''Called unwrapErr on an Ok value'')"
  by (simp add: AsyncResult_toPromise_def AsyncResult_unwrap_def Result_unwrap_def Result_err_def
      Result_unwrapErr_def Result_ok_def getResolvedData_def getResolvedData_enter_def
      getResolvedData_resume_def new_AsyncResult_def new_TypeError_def new_Error_def
      unwrap_message_def unwrapErr_message_def)

end
